theory Spec2Isabelle
  imports Main
begin

section \<open>Values, exceptions and the outside world\<close>

text \<open>
  The plugin \<^verbatim>\<open>BaseVMAppPlugin\<close> (file \<^verbatim>\<open>backend_plugins/base_vm_app.py\<close>) reads a
  configuration that arrives as parsed JSON and drives a cloud provider through the
  CloudBridge interface. Configuration values are modelled as JSON values (numbers are
  integers; a Python \<^verbatim>\<open>dict\<close> is an association list read through \<open>map_of\<close>, Python's
  \<^verbatim>\<open>None\<close> is \<open>JNull\<close>).
\<close>

datatype json =
    JNull
  | JBool bool
  | JInt int
  | JStr string
  | JList "json list"
  | JObj "(string \<times> json) list"

type_synonym dict = "(string \<times> json) list"

text \<open>
  The exceptions the code can meet. \<open>OtherError\<close> stands for every exception class that no
  handler of this file names (a provider failure, a timeout, ...).
\<close>

datatype exn =
    AttributeError
  | TypeError
  | ValueError
  | HTTPError nat
  | ConnectionError
  | OtherError string

text \<open>Python truthiness of a JSON value, and \<^verbatim>\<open>a or b\<close>.\<close>

fun truthy :: "json \<Rightarrow> bool" where
  "truthy JNull = False"
| "truthy (JBool b) = b"
| "truthy (JInt n) = (n \<noteq> 0)"
| "truthy (JStr s) = (s \<noteq> [])"
| "truthy (JList xs) = (xs \<noteq> [])"
| "truthy (JObj kvs) = (kvs \<noteq> [])"

definition py_or :: "json \<Rightarrow> json \<Rightarrow> json" where
  "py_or a b = (if truthy a then a else b)"

text \<open>\<^verbatim>\<open>d.get(key, default)\<close> on a dict.\<close>

definition dict_get :: "dict \<Rightarrow> string \<Rightarrow> json \<Rightarrow> json" where
  "dict_get d k dflt = (case map_of d k of None \<Rightarrow> dflt | Some v \<Rightarrow> v)"

text \<open>
  \<^verbatim>\<open>x.get(key, default)\<close> on any value: only a dict has the method, everything else raises
  \<^verbatim>\<open>AttributeError\<close>.
\<close>

fun py_get :: "json \<Rightarrow> string \<Rightarrow> json \<Rightarrow> exn + json" where
  "py_get (JObj d) k dflt = Inr (dict_get d k dflt)"
| "py_get _ k dflt = Inl AttributeError"

text \<open>
  \<^verbatim>\<open>for x in v\<close>: the items the loop visits. A list yields its elements, a string its
  characters, a dict its keys; \<^verbatim>\<open>None\<close>, booleans and numbers are not iterable.
\<close>

fun py_iter :: "json \<Rightarrow> exn + json list" where
  "py_iter (JList xs) = Inr xs"
| "py_iter (JStr s) = Inr (map (\<lambda>c. JStr [c]) s)"
| "py_iter (JObj kvs) = Inr (map JStr (remdups (map fst kvs)))"
| "py_iter _ = Inl TypeError"

subsection \<open>Provider objects\<close>

text \<open>
  The objects CloudBridge hands out, with the attributes this file reads. An address (the
  \<^verbatim>\<open>public_ip\<close> of a floating IP, an element of an instance's \<^verbatim>\<open>public_ips\<close>) is a string
  or \<^verbatim>\<open>None\<close>. A floating IP's \<^verbatim>\<open>in_use()\<close> reads the flag the object carries. A launch
  config is a handle: what is added to it shows in the trace of calls.
\<close>

record key_pair =
  key_id :: string
  key_name :: string
  key_material :: "string option"

record security_group =
  sg_id :: string
  sg_name :: string

record network =
  network_id :: string

record floating_ip =
  public_ip :: "string option"
  in_use :: bool

record vm_instance =
  inst_id :: string
  public_ips :: "string option list"

record machine_image =
  image_id :: string

datatype launch_config = LaunchConfig nat

text \<open>An address as the argument of a call.\<close>

fun json_of :: "string option \<Rightarrow> json" where
  "json_of (Some s) = JStr s"
| "json_of None = JNull"

record cloud_version_config =
  cloud :: json
  cvc_image_id :: json
  default_instance_type :: json

subsection \<open>Events\<close>

text \<open>
  Everything the code does to the outside is an event of a trace: the calls into the
  provider with their arguments, what is printed, the progress messages sent to the task,
  the sleeps and the HTTP probes.
\<close>

datatype rule_args =
    SrcGroup security_group
  | IpRule json json json json

datatype message =
    PrintExn exn
  | PrintAttaching "string option"
  | PrintLaunching json "security_group option"
  | PrintUserData json

datatype action =
    RetrievingKeypair
  | ApplyingFirewall
  | LaunchingInstance json string json
  | WaitingForInstance string
  | AssigningFloatingIP json
  | CreationSuccessful "string option"
  | WaitingForApplication string

record create_request =
  req_name :: json
  req_image :: "machine_image option"
  req_instance_type :: json
  req_subnet :: json
  req_key_pair :: key_pair
  req_security_groups :: "security_group option list"
  req_zone :: json
  req_user_data :: json
  req_launch_config :: "launch_config option"

datatype event =
    GetCloudProvider json json
  | ImagesGet json
  | KeyPairsFind json
  | KeyPairsCreate json
  | SecurityGroupsFind json
  | SecurityGroupsCreate json json json
  | GetOrCreateDefault
  | AddRule security_group rule_args
  | CreateLaunchConfig
  | AddVolumeDevice launch_config "machine_image option" int bool
  | InstancesCreate create_request
  | WaitTillReady vm_instance
  | AddFloatingIp vm_instance json
  | Refresh vm_instance
  | FloatingIps
  | CreateFloatingIp
  | Print message
  | UpdateState action
  | Sleep nat
  | Head string

text \<open>
  The outside world answers each call. The answer may depend on everything that happened
  before (the trace so far), and every call may raise. A method of an instance answers
  with the instance as the call left it. \<open>int_of_str\<close> is Python's \<^verbatim>\<open>int()\<close> on a string.
\<close>

record world =
  get_cloud_provider :: "event list \<Rightarrow> json \<Rightarrow> json \<Rightarrow> exn + unit"
  images_get :: "event list \<Rightarrow> json \<Rightarrow> exn + machine_image option"
  key_pairs_find :: "event list \<Rightarrow> json \<Rightarrow> exn + key_pair list"
  key_pairs_create :: "event list \<Rightarrow> json \<Rightarrow> exn + key_pair"
  security_groups_find :: "event list \<Rightarrow> json \<Rightarrow> exn + security_group list"
  security_groups_create :: "event list \<Rightarrow> json \<Rightarrow> json \<Rightarrow> json \<Rightarrow> exn + security_group"
  get_or_create_default :: "event list \<Rightarrow> exn + network option"
  add_rule :: "event list \<Rightarrow> security_group \<Rightarrow> rule_args \<Rightarrow> exn + unit"
  create_launch_config :: "event list \<Rightarrow> exn + launch_config"
  add_volume_device :: "event list \<Rightarrow> launch_config \<Rightarrow> machine_image option \<Rightarrow> int \<Rightarrow> bool \<Rightarrow> exn + unit"
  instances_create :: "event list \<Rightarrow> create_request \<Rightarrow> exn + vm_instance"
  wait_till_ready :: "event list \<Rightarrow> vm_instance \<Rightarrow> exn + vm_instance"
  add_floating_ip :: "event list \<Rightarrow> vm_instance \<Rightarrow> json \<Rightarrow> exn + vm_instance"
  refresh :: "event list \<Rightarrow> vm_instance \<Rightarrow> exn + vm_instance"
  floating_ips :: "event list \<Rightarrow> exn + floating_ip list"
  create_floating_ip :: "event list \<Rightarrow> exn + floating_ip"
  requests_head :: "event list \<Rightarrow> string \<Rightarrow> exn + nat"
  int_of_str :: "string \<Rightarrow> exn + int"

subsection \<open>Programs\<close>

text \<open>
  A program takes the trace so far and returns a value or an exception, with the trace
  extended by what it did.
\<close>

type_synonym 'a prog = "event list \<Rightarrow> (exn + 'a) \<times> event list"

definition ret :: "'a \<Rightarrow> 'a prog" where
  "ret x = (\<lambda>h. (Inr x, h))"

definition raise :: "exn \<Rightarrow> 'a prog" where
  "raise e = (\<lambda>h. (Inl e, h))"

definition lift :: "exn + 'a \<Rightarrow> 'a prog" where
  "lift r = (\<lambda>h. (r, h))"

definition and_then :: "'a prog \<Rightarrow> ('a \<Rightarrow> 'b prog) \<Rightarrow> 'b prog" where
  "and_then m f = (\<lambda>h. case m h of (Inl e, h') \<Rightarrow> (Inl e, h') | (Inr x, h') \<Rightarrow> f x h')"

definition call :: "event \<Rightarrow> (event list \<Rightarrow> exn + 'a) \<Rightarrow> 'a prog" where
  "call ev answer = (\<lambda>h. (answer h, h @ [ev]))"

definition tell :: "event \<Rightarrow> unit prog" where
  "tell ev = (\<lambda>h. (Inr (), h @ [ev]))"

text \<open>\<^verbatim>\<open>try: m except Exception as e: handler(e)\<close>\<close>

definition try_except :: "'a prog \<Rightarrow> (exn \<Rightarrow> 'a prog) \<Rightarrow> 'a prog" where
  "try_except m handler = (\<lambda>h. case m h of (Inl e, h') \<Rightarrow> handler e h' | (Inr x, h') \<Rightarrow> (Inr x, h'))"

section \<open>Floating IP allocation\<close>

text \<open>
  The scan of \<^verbatim>\<open>attach_public_ip\<close>:
  \<^verbatim>\<open>for ip in fips: if not ip.in_use(): fip = ip\<close>
\<close>

fun scan_fips :: "floating_ip option \<Rightarrow> floating_ip list \<Rightarrow> floating_ip option" where
  "scan_fips fip [] = fip"
| "scan_fips fip (ip # ips) = scan_fips (if \<not> in_use ip then Some ip else fip) ips"

text \<open>
  \<^verbatim>\<open>attach_public_ip(self, provider, inst)\<close>. The addresses are returned as the objects
  hold them; \<open>None\<close> is Python's \<^verbatim>\<open>None\<close>.
\<close>

definition attach_public_ip :: "world \<Rightarrow> vm_instance \<Rightarrow> string option prog" where
  "attach_public_ip W inst =
     (if public_ips inst = [] then
        and_then (call FloatingIps (floating_ips W)) (\<lambda>fips.
        and_then
          (case scan_fips None fips of
             Some fip \<Rightarrow>
               and_then (tell (Print (PrintAttaching (public_ip fip)))) (\<lambda>_.
               and_then (call (AddFloatingIp inst (json_of (public_ip fip)))
                           (\<lambda>h. add_floating_ip W h inst (json_of (public_ip fip)))) (\<lambda>_.
               ret fip))
           | None \<Rightarrow>
               and_then (call CreateFloatingIp (create_floating_ip W)) (\<lambda>fip.
               and_then (call (AddFloatingIp inst (json_of (public_ip fip)))
                           (\<lambda>h. add_floating_ip W h inst (json_of (public_ip fip)))) (\<lambda>_.
               ret fip)))
          (\<lambda>fip. ret (public_ip fip)))
      else if length (public_ips inst) > 0 then ret (public_ips inst ! 0)
      else ret None)"

section \<open>Resource resolution\<close>

text \<open>\<^verbatim>\<open>_get_or_create_kp(self, provider, kp_name)\<close>\<close>

definition get_or_create_kp :: "world \<Rightarrow> json \<Rightarrow> key_pair prog" where
  "get_or_create_kp W kp_name =
     and_then (call (KeyPairsFind kp_name) (\<lambda>h. key_pairs_find W h kp_name)) (\<lambda>kps.
       case kps of
         kp # _ \<Rightarrow> ret kp
       | [] \<Rightarrow> call (KeyPairsCreate kp_name) (\<lambda>h. key_pairs_create W h kp_name))"

text \<open>
  \<^verbatim>\<open>_get_network_id(self, provider, cloudlaunch_config)\<close>. The guard is
  \<^verbatim>\<open>if not net_id\<close>, and the default network is used only \<^verbatim>\<open>if net\<close>.
\<close>

definition get_network_id :: "world \<Rightarrow> dict \<Rightarrow> json prog" where
  "get_network_id W cloudlaunch_config =
     (let net_id = dict_get cloudlaunch_config ''network'' JNull in
      if \<not> truthy net_id then
        and_then (call GetOrCreateDefault (get_or_create_default W)) (\<lambda>net.
          case net of
            Some n \<Rightarrow> ret (JStr (network_id n))
          | None \<Rightarrow> ret net_id)
      else ret net_id)"

text \<open>
  The two nested loops of \<^verbatim>\<open>_get_or_create_sg\<close>:
  \<^verbatim>\<open>for sg1 in sgs: for sg2 in sgs: if sg1 == sg2: return sg1\<close>
\<close>

fun sg_inner :: "security_group \<Rightarrow> security_group list \<Rightarrow> security_group option" where
  "sg_inner sg1 [] = None"
| "sg_inner sg1 (sg2 # rest) = (if sg1 = sg2 then Some sg1 else sg_inner sg1 rest)"

fun sg_outer :: "security_group list \<Rightarrow> security_group list \<Rightarrow> security_group option" where
  "sg_outer [] sgs = None"
| "sg_outer (sg1 # rest) sgs =
     (case sg_inner sg1 sgs of Some sg \<Rightarrow> Some sg | None \<Rightarrow> sg_outer rest sgs)"

text \<open>\<^verbatim>\<open>_get_or_create_sg(self, provider, cloudlaunch_config, sg_name, description)\<close>\<close>

definition get_or_create_sg :: "world \<Rightarrow> dict \<Rightarrow> json \<Rightarrow> json \<Rightarrow> security_group prog" where
  "get_or_create_sg W cloudlaunch_config name description =
     and_then (call (SecurityGroupsFind name) (\<lambda>h. security_groups_find W h name)) (\<lambda>sgs.
       case sg_outer sgs sgs of
         Some sg \<Rightarrow> ret sg
       | None \<Rightarrow>
           and_then (get_network_id W cloudlaunch_config) (\<lambda>net.
           call (SecurityGroupsCreate name description net)
             (\<lambda>h. security_groups_create W h name description net)))"

section \<open>Launch plan\<close>

text \<open>Python's \<^verbatim>\<open>int(v)\<close>.\<close>

fun py_int :: "world \<Rightarrow> json \<Rightarrow> exn + int" where
  "py_int W (JInt n) = Inr n"
| "py_int W (JBool b) = Inr (if b then 1 else 0)"
| "py_int W (JStr s) = int_of_str W s"
| "py_int W _ = Inl TypeError"

text \<open>\<^verbatim>\<open>_get_cb_launch_config(self, provider, image, cloudlaunch_config)\<close>\<close>

definition get_cb_launch_config ::
  "world \<Rightarrow> machine_image option \<Rightarrow> dict \<Rightarrow> launch_config option prog" where
  "get_cb_launch_config W img cloudlaunch_config =
     (let lc = None in
      if dict_get cloudlaunch_config ''rootStorageType'' (JStr ''instance'') = JStr ''volume'' then
        and_then (case lc of
                    None \<Rightarrow> call CreateLaunchConfig (create_launch_config W)
                  | Some l \<Rightarrow> ret l) (\<lambda>lc.
        and_then (lift (py_int W (dict_get cloudlaunch_config ''rootStorageSize'' (JInt 20)))) (\<lambda>size.
        and_then (call (AddVolumeDevice lc img size True)
                    (\<lambda>h. add_volume_device W h lc img size True)) (\<lambda>_.
        ret (Some lc))))
      else ret lc)"

section \<open>Firewall settings\<close>

text \<open>The body of the \<^verbatim>\<open>try\<close> block: one rule of a group.\<close>

definition add_one_rule :: "world \<Rightarrow> security_group \<Rightarrow> json \<Rightarrow> unit prog" where
  "add_one_rule W sg rule =
     and_then (lift (py_get rule ''src_group'' JNull)) (\<lambda>src_group.
       if truthy src_group then
         call (AddRule sg (SrcGroup sg)) (\<lambda>h. add_rule W h sg (SrcGroup sg))
       else
         and_then (lift (py_get rule ''protocol'' JNull)) (\<lambda>protocol.
         and_then (lift (py_get rule ''from'' JNull)) (\<lambda>from_port.
         and_then (lift (py_get rule ''to'' JNull)) (\<lambda>to_port.
         and_then (lift (py_get rule ''cidr'' JNull)) (\<lambda>cidr.
         call (AddRule sg (IpRule protocol from_port to_port cidr))
           (\<lambda>h. add_rule W h sg (IpRule protocol from_port to_port cidr)))))))"

text \<open>
  \<^verbatim>\<open>for rule in ...: try: ... except Exception as e: print(e)\<close>
\<close>

fun add_rules :: "world \<Rightarrow> security_group \<Rightarrow> json list \<Rightarrow> unit prog" where
  "add_rules W sg [] = ret ()"
| "add_rules W sg (rule # rules) =
     and_then (try_except (add_one_rule W sg rule) (\<lambda>e. tell (Print (PrintExn e))))
       (\<lambda>_. add_rules W sg rules)"

text \<open>
  The loop over the groups. Its body ends with \<^verbatim>\<open>return sg\<close>, so the loop never comes
  to a second group; with no group at all the function falls off its end and returns
  \<^verbatim>\<open>None\<close>.
\<close>

fun firewall_loop :: "world \<Rightarrow> dict \<Rightarrow> json list \<Rightarrow> security_group option prog" where
  "firewall_loop W cloudlaunch_config [] = ret None"
| "firewall_loop W cloudlaunch_config (grp # groups) =
     and_then (lift (py_get grp ''securityGroup'' JNull)) (\<lambda>n.
     and_then (lift (py_get grp ''description'' JNull)) (\<lambda>d.
     and_then (get_or_create_sg W cloudlaunch_config
                 (py_or n (JStr ''CloudLaunchDefault''))
                 (py_or d (JStr ''Created by CloudLaunch''))) (\<lambda>sg.
     and_then (lift (py_get grp ''rules'' (JList []))) (\<lambda>rs.
     and_then (lift (py_iter rs)) (\<lambda>rules.
     and_then (add_rules W sg rules) (\<lambda>_.
     ret (Some sg)))))))"

text \<open>\<^verbatim>\<open>apply_app_firewall_settings(self, provider, cloudlaunch_config)\<close>\<close>

definition apply_app_firewall_settings :: "world \<Rightarrow> dict \<Rightarrow> security_group option prog" where
  "apply_app_firewall_settings W cloudlaunch_config =
     and_then (lift (py_iter (dict_get cloudlaunch_config ''firewall'' (JList []))))
       (firewall_loop W cloudlaunch_config)"

section \<open>Readiness polling\<close>

text \<open>
  \<^verbatim>\<open>r.raise_for_status()\<close> of the requests library raises \<^verbatim>\<open>HTTPError\<close> for a status from
  400 to 599 and returns otherwise.
\<close>

definition raise_for_status :: "nat \<Rightarrow> unit prog" where
  "raise_for_status status =
     (if 400 \<le> status \<and> status < 600 then raise (HTTPError status) else ret ())"

text \<open>
  One pass through the loop body of \<^verbatim>\<open>wait_for_http\<close>, up to \<^verbatim>\<open>count += 1\<close>. The value
  \<open>True\<close> says that the body executed \<^verbatim>\<open>return\<close>, \<open>False\<close> that it fell through to the
  increment. An \<^verbatim>\<open>HTTPError\<close> with another status than 401 and 403 leaves its handler
  without raising again.
\<close>

definition cycle :: "world \<Rightarrow> string \<Rightarrow> nat \<Rightarrow> bool prog" where
  "cycle W url poll_interval =
     and_then (tell (Sleep poll_interval)) (\<lambda>_. \<lambda>h.
       case and_then (call (Head url) (\<lambda>h. requests_head W h url)) raise_for_status h of
         (Inr _, h') \<Rightarrow> (Inr True, h')
       | (Inl (HTTPError status_code), h') \<Rightarrow> (Inr (status_code = 401 \<or> status_code = 403), h')
       | (Inl ConnectionError, h') \<Rightarrow> (Inr False, h')
       | (Inl e, h') \<Rightarrow> (Inl e, h'))"

function wait_loop :: "world \<Rightarrow> string \<Rightarrow> int \<Rightarrow> nat \<Rightarrow> int \<Rightarrow> unit prog" where
  "wait_loop W url max_retries poll_interval count h =
     (if count < max_retries then
        (case cycle W url poll_interval h of
           (Inl e, h') \<Rightarrow> (Inl e, h')
         | (Inr True, h') \<Rightarrow> (Inr (), h')
         | (Inr False, h') \<Rightarrow> wait_loop W url max_retries poll_interval (count + 1) h')
      else (Inr (), h))"
  by pat_completeness auto
termination
  by (relation "measure (\<lambda>(W, url, max_retries, poll_interval, count, h). nat (max_retries - count))") auto

text \<open>\<^verbatim>\<open>wait_for_http(self, url, max_retries=200, poll_interval=5)\<close>\<close>

definition wait_for_http :: "world \<Rightarrow> string \<Rightarrow> int \<Rightarrow> nat \<Rightarrow> unit prog" where
  "wait_for_http W url max_retries poll_interval = wait_loop W url max_retries poll_interval 0"

definition wait_for_http_default :: "world \<Rightarrow> string \<Rightarrow> unit prog" where
  "wait_for_http_default W url = wait_for_http W url 200 5"

section \<open>The orchestrator\<close>

text \<open>
  The dict \<^verbatim>\<open>results\<close> of \<^verbatim>\<open>launch_app\<close>. The key \<^verbatim>\<open>applicationURL\<close> is set only for the
  base app.
\<close>

record launch_result =
  res_key_pair :: key_pair
  res_security_group :: security_group
  res_instance :: string
  res_public_ip :: "string option"
  res_application_url :: "string option"

text \<open>The first method call on a value that has to be a dict.\<close>

fun as_dict :: "json \<Rightarrow> exn + dict" where
  "as_dict (JObj d) = Inr d"
| "as_dict _ = Inl AttributeError"

text \<open>
  \<^verbatim>\<open>launch_app(self, task, name, cloud_version_config, credentials, app_config, user_data)\<close>.
  The task receives the \<open>UpdateState\<close> events; \<open>base_app\<close> is the attribute
  \<^verbatim>\<open>self.base_app\<close>. Reading \<^verbatim>\<open>sg.id\<close> raises \<^verbatim>\<open>AttributeError\<close> when \<^verbatim>\<open>sg\<close> is \<^verbatim>\<open>None\<close>;
  \<^verbatim>\<open>if results['publicIP']\<close> holds for a string that is not empty.
\<close>

definition launch_app ::
  "world \<Rightarrow> bool \<Rightarrow> json \<Rightarrow> cloud_version_config \<Rightarrow> json \<Rightarrow> json \<Rightarrow> json \<Rightarrow> launch_result prog" where
  "launch_app W base_app name cloud_version_config credentials app_config user_data =
     and_then (lift (py_get app_config ''config_cloudlaunch'' (JObj []))) (\<lambda>config.
     and_then (call (GetCloudProvider (cloud cloud_version_config) credentials)
                 (\<lambda>h. get_cloud_provider W h (cloud cloud_version_config) credentials)) (\<lambda>_.
     and_then (lift (as_dict config)) (\<lambda>cloudlaunch_config.
     let custom_image_id = dict_get cloudlaunch_config ''customImageID'' JNull;
         wanted = py_or custom_image_id (cvc_image_id cloud_version_config) in
     and_then (call (ImagesGet wanted) (\<lambda>h. images_get W h wanted)) (\<lambda>img.
     and_then (tell (UpdateState RetrievingKeypair)) (\<lambda>_.
     and_then (get_or_create_kp W
                 (py_or (dict_get cloudlaunch_config ''keyPair'' JNull)
                    (JStr ''cloudlaunch_key_pair''))) (\<lambda>kp.
     and_then (tell (UpdateState ApplyingFirewall)) (\<lambda>_.
     and_then (apply_app_firewall_settings W cloudlaunch_config) (\<lambda>sg.
     and_then (get_cb_launch_config W img cloudlaunch_config) (\<lambda>cb_launch_config.
     let inst_type = dict_get cloudlaunch_config ''instanceType''
                       (default_instance_type cloud_version_config);
         placement_zone = dict_get cloudlaunch_config ''placementZone'' JNull;
         subnet_id = dict_get cloudlaunch_config ''subnet'' JNull;
         request = \<lparr>req_name = name, req_image = img, req_instance_type = inst_type,
                     req_subnet = subnet_id, req_key_pair = kp, req_security_groups = [sg],
                     req_zone = placement_zone, req_user_data = user_data,
                     req_launch_config = cb_launch_config\<rparr> in
     and_then (tell (Print (PrintLaunching subnet_id sg))) (\<lambda>_.
     and_then (tell (Print (PrintUserData user_data))) (\<lambda>_.
     and_then (tell (UpdateState (LaunchingInstance inst_type (key_name kp) placement_zone))) (\<lambda>_.
     and_then (call (InstancesCreate request) (\<lambda>h. instances_create W h request)) (\<lambda>inst.
     and_then (tell (UpdateState (WaitingForInstance (inst_id inst)))) (\<lambda>_.
     and_then (call (WaitTillReady inst) (\<lambda>h. wait_till_ready W h inst)) (\<lambda>inst.
     let static_ip = dict_get cloudlaunch_config ''staticIP'' JNull in
     and_then (if truthy static_ip then
                 and_then (tell (UpdateState (AssigningFloatingIP static_ip))) (\<lambda>_.
                 and_then (call (AddFloatingIp inst static_ip)
                             (\<lambda>h. add_floating_ip W h inst static_ip)) (\<lambda>inst.
                 call (Refresh inst) (\<lambda>h. refresh W h inst)))
               else ret inst) (\<lambda>inst.
     and_then (case sg of None \<Rightarrow> raise AttributeError | Some g \<Rightarrow> ret g) (\<lambda>g.
     and_then (attach_public_ip W inst) (\<lambda>ip.
     and_then (tell (UpdateState (CreationSuccessful ip))) (\<lambda>_.
     let results = \<lparr>res_key_pair = kp, res_security_group = g, res_instance = inst_id inst,
                     res_public_ip = ip, res_application_url = None\<rparr> in
     if base_app then
       (case ip of
          Some (c # cs) \<Rightarrow>
            (let url = ''http://'' @ (c # cs) @ ''/'' in
             and_then (tell (UpdateState (WaitingForApplication url))) (\<lambda>_.
             and_then (wait_for_http_default W url) (\<lambda>_.
             ret (results\<lparr>res_application_url := Some url\<rparr>))))
        | _ \<Rightarrow> ret (results\<lparr>res_application_url := Some ''N/A''\<rparr>))
     else ret results)))))))))))))))))))"

section \<open>A sample world\<close>

text \<open>
  A provider with no key pair and no security group yet, four floating IPs of which the
  first and the third are free, and an application that answers 200 from the third probe
  on. Adding a rule that names a source group fails; every other call succeeds.
\<close>

definition sample_fips :: "floating_ip list" where
  "sample_fips =
     [\<lparr>public_ip = Some ''1.2.3.4'', in_use = False\<rparr>,
      \<lparr>public_ip = Some ''1.2.3.5'', in_use = True\<rparr>,
      \<lparr>public_ip = Some ''1.2.3.6'', in_use = False\<rparr>,
      \<lparr>public_ip = Some ''1.2.3.7'', in_use = True\<rparr>]"

fun name_of :: "json \<Rightarrow> string" where
  "name_of (JStr s) = s"
| "name_of _ = []"

fun is_head :: "event \<Rightarrow> bool" where
  "is_head (Head url) = True"
| "is_head _ = False"

definition sample_world :: world where
  "sample_world =
     \<lparr>get_cloud_provider = (\<lambda>h c k. Inr ()),
      images_get = (\<lambda>h i. Inr (Some \<lparr>image_id = name_of i\<rparr>)),
      key_pairs_find = (\<lambda>h n. Inr []),
      key_pairs_create = (\<lambda>h n. Inr \<lparr>key_id = ''kp-1'', key_name = name_of n,
                                       key_material = Some ''PEM''\<rparr>),
      security_groups_find = (\<lambda>h n. Inr []),
      security_groups_create = (\<lambda>h n d net. Inr \<lparr>sg_id = ''sg-1'', sg_name = name_of n\<rparr>),
      get_or_create_default = (\<lambda>h. Inr (Some \<lparr>network_id = ''net-0''\<rparr>)),
      add_rule = (\<lambda>h sg args. case args of SrcGroup _ \<Rightarrow> Inl (OtherError ''InvalidRule'')
                               | IpRule _ _ _ _ \<Rightarrow> Inr ()),
      create_launch_config = (\<lambda>h. Inr (LaunchConfig 0)),
      add_volume_device = (\<lambda>h lc img n r. Inr ()),
      instances_create = (\<lambda>h r. Inr \<lparr>inst_id = ''i-1'', public_ips = []\<rparr>),
      wait_till_ready = (\<lambda>h i. Inr i),
      add_floating_ip = (\<lambda>h i a. Inr i),
      refresh = (\<lambda>h i. Inr i),
      floating_ips = (\<lambda>h. Inr sample_fips),
      create_floating_ip = (\<lambda>h. Inr \<lparr>public_ip = Some ''5.6.7.8'', in_use = False\<rparr>),
      requests_head = (\<lambda>h url. if length (filter is_head h) < 2 then Inl ConnectionError
                                 else Inr 200),
      int_of_str = (\<lambda>s. Inl ValueError)\<rparr>"

definition sample_config :: cloud_version_config where
  "sample_config =
     \<lparr>cloud = JStr ''aws'', cvc_image_id = JStr ''ami-1'',
      default_instance_type = JStr ''m1.small''\<rparr>"

text \<open>
  A configuration with two firewall groups. The first rule of group A names a source
  group, so the sample provider refuses it.
\<close>

definition self_rule :: dict where
  "self_rule = [(''src_group'', JStr ''A''), (''from'', JStr ''1''), (''to'', JStr ''65535''),
                (''protocol'', JStr ''tcp'')]"

definition ssh_rule :: dict where
  "ssh_rule = [(''from'', JStr ''22''), (''to'', JStr ''22''), (''cidr'', JStr ''0.0.0.0/0''),
               (''protocol'', JStr ''tcp'')]"

definition http_rule :: dict where
  "http_rule = [(''from'', JStr ''80''), (''to'', JStr ''80''), (''cidr'', JStr ''0.0.0.0/0''),
                (''protocol'', JStr ''tcp'')]"

definition group_a :: dict where
  "group_a = [(''rules'', JList [JObj self_rule, JObj ssh_rule]), (''securityGroup'', JStr ''A''),
              (''description'', JStr ''My App SG'')]"

definition group_b :: dict where
  "group_b = [(''rules'', JList [JObj http_rule]), (''securityGroup'', JStr ''B'')]"

definition two_groups :: dict where
  "two_groups = [(''firewall'', JList [JObj group_a, JObj group_b])]"

definition sg_a :: security_group where
  "sg_a = \<lparr>sg_id = ''sg-1'', sg_name = ''A''\<rparr>"

section \<open>Notions used in the statements\<close>

text \<open>The trace of \<open>k\<close> sleep+probe cycles.\<close>

definition cycles :: "nat \<Rightarrow> nat \<Rightarrow> string \<Rightarrow> event list" where
  "cycles k poll_interval url = concat (replicate k [Sleep poll_interval, Head url])"

text \<open>
  The answers to a HEAD request after which the poller goes on to its next attempt: a
  connection failure, or an HTTP error status (raised by the request, or a status from
  400 to 599 of the response) other than 401 and 403.
\<close>

fun goes_on :: "exn + nat \<Rightarrow> bool" where
  "goes_on (Inl ConnectionError) = True"
| "goes_on (Inl (HTTPError s)) = (s \<noteq> 401 \<and> s \<noteq> 403)"
| "goes_on (Inl _) = False"
| "goes_on (Inr s) = (400 \<le> s \<and> s < 600 \<and> s \<noteq> 401 \<and> s \<noteq> 403)"

text \<open>
  The request that a rule written as a dict stands for: a rule with a truthy
  \<^verbatim>\<open>src_group\<close> names the group itself as source, any other rule its protocol, ports and
  CIDR.
\<close>

definition rule_request :: "security_group \<Rightarrow> dict \<Rightarrow> rule_args" where
  "rule_request sg d =
     (if truthy (dict_get d ''src_group'' JNull) then SrcGroup sg
      else IpRule (dict_get d ''protocol'' JNull) (dict_get d ''from'' JNull)
             (dict_get d ''to'' JNull) (dict_get d ''cidr'' JNull))"

text \<open>
  The trace that going through the rules of a group leaves, told from the provider's
  answers alone: each rule that is a dict is requested once, in the order of the list; a
  request that the provider refuses with \<open>e\<close> is followed by the printing of \<open>e\<close>; a
  rule that is no dict has no \<^verbatim>\<open>get\<close> and leaves the printed \<^verbatim>\<open>AttributeError\<close>.
\<close>

fun rule_events :: "world \<Rightarrow> security_group \<Rightarrow> json list \<Rightarrow> event list \<Rightarrow> event list" where
  "rule_events W sg [] h = h"
| "rule_events W sg (JObj d # rules) h =
     rule_events W sg rules
       (h @ AddRule sg (rule_request sg d) #
          (case add_rule W h sg (rule_request sg d) of
             Inl e \<Rightarrow> [Print (PrintExn e)]
           | Inr u \<Rightarrow> []))"
| "rule_events W sg (rule # rules) h =
     rule_events W sg rules (h @ [Print (PrintExn AttributeError)])"

text \<open>
  The events that come from the rules of a group (the requests and the printed
  exceptions), and a trace without them.
\<close>

fun about_rule :: "event \<Rightarrow> bool" where
  "about_rule (AddRule sg args) = True"
| "about_rule (Print (PrintExn e)) = True"
| "about_rule ev = False"

definition others :: "event list \<Rightarrow> event list" where
  "others h = filter (\<lambda>ev. \<not> about_rule ev) h"

text \<open>
  A world whose answers, those to \<open>add_rule\<close> apart, do not look at the events that come
  from rules.
\<close>

definition rule_blind :: "world \<Rightarrow> bool" where
  "rule_blind W \<longleftrightarrow>
     (\<forall>h. get_cloud_provider W h = get_cloud_provider W (others h))
     \<and> (\<forall>h. images_get W h = images_get W (others h))
     \<and> (\<forall>h. key_pairs_find W h = key_pairs_find W (others h))
     \<and> (\<forall>h. key_pairs_create W h = key_pairs_create W (others h))
     \<and> (\<forall>h. security_groups_find W h = security_groups_find W (others h))
     \<and> (\<forall>h. security_groups_create W h = security_groups_create W (others h))
     \<and> (\<forall>h. get_or_create_default W h = get_or_create_default W (others h))
     \<and> (\<forall>h. create_launch_config W h = create_launch_config W (others h))
     \<and> (\<forall>h. add_volume_device W h = add_volume_device W (others h))
     \<and> (\<forall>h. instances_create W h = instances_create W (others h))
     \<and> (\<forall>h. wait_till_ready W h = wait_till_ready W (others h))
     \<and> (\<forall>h. add_floating_ip W h = add_floating_ip W (others h))
     \<and> (\<forall>h. refresh W h = refresh W (others h))
     \<and> (\<forall>h. floating_ips W h = floating_ips W (others h))
     \<and> (\<forall>h. create_floating_ip W h = create_floating_ip W (others h))
     \<and> (\<forall>h. requests_head W h = requests_head W (others h))"

text \<open>
  Two programs that, started from traces that differ only in events about rules, end
  with the same value or exception and with traces that differ only in such events.
\<close>

definition same_run :: "'a prog \<Rightarrow> 'a prog \<Rightarrow> bool" where
  "same_run m m' \<longleftrightarrow>
     (\<forall>h h'. others h = others h' \<longrightarrow>
        fst (m h) = fst (m' h') \<and> others (snd (m h)) = others (snd (m' h')))"

section \<open>Basic facts\<close>

lemmas prog_defs = ret_def raise_def lift_def and_then_def call_def tell_def try_except_def

declare wait_loop.simps [simp del]

section \<open>Floating IP allocation: properties\<close>

text \<open>The scan keeps the last floating IP that is not in use.\<close>

lemma scan_fips_last:
  "scan_fips acc fips =
     (if filter (\<lambda>ip. \<not> in_use ip) fips = [] then acc
      else Some (last (filter (\<lambda>ip. \<not> in_use ip) fips)))"
  by (induction fips arbitrary: acc) auto

text \<open>
  C5. For an instance whose list of public IPs is empty, when the scan of the account's
  floating IPs answers \<open>fips\<close>: if some floating IP is not in use, \<open>attach_public_ip\<close>
  attaches the last one of the scan that is not in use and returns its address, and the
  trace shows the scan, the message and the attachment, with no allocation; if none is
  free, it asks the provider for one new floating IP (a single \<open>CreateFloatingIp\<close>),
  attaches it and returns its address.
\<close>

theorem attach_public_ip_empty:
  assumes "public_ips inst = []" and "floating_ips W h = Inr fips"
  shows "(filter (\<lambda>ip. \<not> in_use ip) fips \<noteq> [] \<longrightarrow>
            (let fip = last (filter (\<lambda>ip. \<not> in_use ip) fips);
                 h1 = h @ [FloatingIps, Print (PrintAttaching (public_ip fip))] in
             add_floating_ip W h1 inst (json_of (public_ip fip)) = Inr inst' \<longrightarrow>
             attach_public_ip W inst h =
               (Inr (public_ip fip), h1 @ [AddFloatingIp inst (json_of (public_ip fip))])))
       \<and> (filter (\<lambda>ip. \<not> in_use ip) fips = [] \<longrightarrow>
            create_floating_ip W (h @ [FloatingIps]) = Inr new \<longrightarrow>
            add_floating_ip W (h @ [FloatingIps, CreateFloatingIp]) inst (json_of (public_ip new))
              = Inr inst' \<longrightarrow>
            attach_public_ip W inst h =
              (Inr (public_ip new),
               h @ [FloatingIps, CreateFloatingIp, AddFloatingIp inst (json_of (public_ip new))]))"
  using assms
  by (simp add: attach_public_ip_def prog_defs scan_fips_last Let_def)

theorem attach_public_ip_empty_witness:
  "public_ips \<lparr>inst_id = ''i-1'', public_ips = []\<rparr> = []
   \<and> floating_ips sample_world [] = Inr sample_fips
   \<and> filter (\<lambda>ip. \<not> in_use ip) sample_fips =
        [\<lparr>public_ip = Some ''1.2.3.4'', in_use = False\<rparr>, \<lparr>public_ip = Some ''1.2.3.6'', in_use = False\<rparr>]
   \<and> attach_public_ip sample_world \<lparr>inst_id = ''i-1'', public_ips = []\<rparr> [] =
        (Inr (Some ''1.2.3.6''),
         [FloatingIps, Print (PrintAttaching (Some ''1.2.3.6'')),
          AddFloatingIp \<lparr>inst_id = ''i-1'', public_ips = []\<rparr> (JStr ''1.2.3.6'')])
   \<and> floating_ips (sample_world\<lparr>floating_ips := (\<lambda>h. Inr [])\<rparr>) [] = Inr []
   \<and> attach_public_ip (sample_world\<lparr>floating_ips := (\<lambda>h. Inr [])\<rparr>)
        \<lparr>inst_id = ''i-1'', public_ips = []\<rparr> [] =
        (Inr (Some ''5.6.7.8''),
         [FloatingIps, CreateFloatingIp,
          AddFloatingIp \<lparr>inst_id = ''i-1'', public_ips = []\<rparr> (JStr ''5.6.7.8'')])"
proof -
  let ?inst = "\<lparr>inst_id = ''i-1'', public_ips = []\<rparr>"
  have free: "filter (\<lambda>ip. \<not> in_use ip) sample_fips =
        [\<lparr>public_ip = Some ''1.2.3.4'', in_use = False\<rparr>, \<lparr>public_ip = Some ''1.2.3.6'', in_use = False\<rparr>]"
    by (simp add: sample_fips_def)
  have scan: "floating_ips sample_world [] = Inr sample_fips"
    by (simp add: sample_world_def)
  have reuse: "attach_public_ip sample_world ?inst [] =
        (Inr (Some ''1.2.3.6''),
         [FloatingIps, Print (PrintAttaching (Some ''1.2.3.6'')), AddFloatingIp ?inst (JStr ''1.2.3.6'')])"
    using attach_public_ip_empty [of ?inst sample_world "[]" sample_fips ?inst] scan
    by (simp add: free) (simp add: sample_world_def)
  have none: "floating_ips (sample_world\<lparr>floating_ips := (\<lambda>h. Inr [])\<rparr>) [] = Inr []"
    by simp
  have allocate: "attach_public_ip (sample_world\<lparr>floating_ips := (\<lambda>h. Inr [])\<rparr>) ?inst [] =
        (Inr (Some ''5.6.7.8''),
         [FloatingIps, CreateFloatingIp, AddFloatingIp ?inst (JStr ''5.6.7.8'')])"
    using attach_public_ip_empty [of ?inst "sample_world\<lparr>floating_ips := (\<lambda>h. Inr [])\<rparr>" "[]" "[]"
        ?inst "\<lparr>public_ip = Some ''5.6.7.8'', in_use = False\<rparr>"] none
    by (simp add: sample_world_def)
  show ?thesis
    using free scan reuse none allocate by simp
qed

text \<open>
  C6. For an instance that has one or more public IPs, \<open>attach_public_ip\<close> returns the
  first address of the list and leaves the trace as it was: no scan of the floating IPs,
  no attachment and no allocation, whatever the provider is.
\<close>

theorem attach_public_ip_existing:
  assumes "public_ips inst \<noteq> []"
  shows "attach_public_ip W inst h = (Inr (hd (public_ips inst)), h)"
  using assms by (simp add: attach_public_ip_def ret_def hd_conv_nth)

theorem attach_public_ip_existing_witness:
  "public_ips \<lparr>inst_id = ''i-7'', public_ips = [Some ''9.9.9.9'', Some ''8.8.8.8'']\<rparr> \<noteq> []
   \<and> attach_public_ip sample_world \<lparr>inst_id = ''i-7'', public_ips = [Some ''9.9.9.9'', Some ''8.8.8.8'']\<rparr> []
       = (Inr (Some ''9.9.9.9''), [])"
  using attach_public_ip_existing
    [of "\<lparr>inst_id = ''i-7'', public_ips = [Some ''9.9.9.9'', Some ''8.8.8.8'']\<rparr>" sample_world "[]"]
  by simp

text \<open>
  C10, as the code has it. Every normal return of \<open>attach_public_ip\<close> comes from one of
  its first two branches: with a list of public IPs that is not empty the result is the
  first element of the list and nothing was called; with an empty list the result is the
  address of the floating IP that was attached last. The last branch
  (\<^verbatim>\<open>return None\<close>) is never taken. So the result is \<^verbatim>\<open>None\<close> only when that element or
  that address is \<^verbatim>\<open>None\<close> itself: when the list holds no \<^verbatim>\<open>None\<close> and every floating IP
  of the provider carries an address, the result is never \<^verbatim>\<open>None\<close>.
\<close>

theorem attach_public_ip_result:
  assumes "attach_public_ip W inst h = (Inr r, h')"
  shows "(public_ips inst \<noteq> [] \<longrightarrow> r = hd (public_ips inst) \<and> h' = h)
       \<and> (public_ips inst = [] \<longrightarrow>
            (\<exists>(fip :: floating_ip) t. r = public_ip fip
                     \<and> h' = h @ t @ [AddFloatingIp inst (json_of (public_ip fip))]))
       \<and> (None \<notin> set (public_ips inst) \<longrightarrow>
            (\<forall>k fips. floating_ips W k = Inr fips \<longrightarrow> None \<notin> public_ip ` set fips) \<longrightarrow>
            (\<forall>k fip. create_floating_ip W k = Inr fip \<longrightarrow> public_ip fip \<noteq> None) \<longrightarrow>
            r \<noteq> None)"
proof (cases "public_ips inst = []")
  case False
  with assms have "r = hd (public_ips inst)" and "h' = h"
    by (simp_all add: attach_public_ip_def ret_def hd_conv_nth)
  moreover from this False have "None \<notin> set (public_ips inst) \<longrightarrow> r \<noteq> None"
    by (cases "public_ips inst"; cases r) auto
  ultimately show ?thesis
    using False by simp
next
  case True
  obtain fips where scan: "floating_ips W h = Inr fips"
    using assms True
    by (cases "floating_ips W h") (simp_all add: attach_public_ip_def prog_defs)
  let ?free = "filter (\<lambda>ip. \<not> in_use ip) fips"
  show ?thesis
  proof (cases "?free = []")
    case False
    let ?fip = "last ?free"
    have "?fip \<in> set ?free"
      using False by (rule last_in_set)
    then have known: "?fip \<in> set fips"
      by (simp del: last_in_set)
    have res: "r = public_ip ?fip"
      and trace: "h' = h @ [FloatingIps, Print (PrintAttaching (public_ip ?fip))]
                  @ [AddFloatingIp inst (json_of (public_ip ?fip))]"
      using assms True scan False
      by (auto simp: attach_public_ip_def prog_defs scan_fips_last split: sum.splits)
    have attached: "\<exists>(fip :: floating_ip) t. r = public_ip fip
                     \<and> h' = h @ t @ [AddFloatingIp inst (json_of (public_ip fip))]"
      unfolding res trace
      by (rule exI [of _ ?fip], rule exI [of _ "[FloatingIps, Print (PrintAttaching (public_ip ?fip))]"])
        simp
    have "r \<noteq> None"
      if "\<forall>k fips. floating_ips W k = Inr fips \<longrightarrow> None \<notin> public_ip ` set fips"
      using that scan known res by (metis imageI)
    with True attached show ?thesis
      by simp
  next
    case none: True
    obtain new where made: "create_floating_ip W (h @ [FloatingIps]) = Inr new"
      using assms True scan none
      by (cases "create_floating_ip W (h @ [FloatingIps])")
        (simp_all add: attach_public_ip_def prog_defs scan_fips_last)
    have res: "r = public_ip new"
      and trace: "h' = h @ [FloatingIps, CreateFloatingIp]
                    @ [AddFloatingIp inst (json_of (public_ip new))]"
      using assms True scan none made
      by (auto simp: attach_public_ip_def prog_defs scan_fips_last split: sum.splits)
    have attached: "\<exists>(fip :: floating_ip) t. r = public_ip fip
                     \<and> h' = h @ t @ [AddFloatingIp inst (json_of (public_ip fip))]"
      unfolding res trace
      by (rule exI [of _ new], rule exI [of _ "[FloatingIps, CreateFloatingIp]"]) simp
    have "r \<noteq> None"
      if "\<forall>k fip. create_floating_ip W k = Inr fip \<longrightarrow> public_ip fip \<noteq> None"
      using that made res by blast
    with True attached show ?thesis
      by simp
  qed
qed

theorem attach_public_ip_result_witness:
  "attach_public_ip sample_world \<lparr>inst_id = ''i-1'', public_ips = []\<rparr> [] =
     (Inr (Some ''1.2.3.6''),
      [FloatingIps, Print (PrintAttaching (Some ''1.2.3.6'')),
       AddFloatingIp \<lparr>inst_id = ''i-1'', public_ips = []\<rparr> (JStr ''1.2.3.6'')])
   \<and> None \<notin> set (public_ips \<lparr>inst_id = ''i-1'', public_ips = []\<rparr>)
   \<and> None \<notin> public_ip ` set sample_fips
   \<and> Some ''1.2.3.6'' \<noteq> (None :: string option)
   \<and> attach_public_ip sample_world \<lparr>inst_id = ''i-7'', public_ips = [Some ''9.9.9.9'']\<rparr> [] =
       (Inr (Some ''9.9.9.9''), [])
   \<and> Some ''9.9.9.9'' = hd (public_ips \<lparr>inst_id = ''i-7'', public_ips = [Some ''9.9.9.9'']\<rparr>)"
proof -
  have run: "attach_public_ip sample_world \<lparr>inst_id = ''i-1'', public_ips = []\<rparr> [] =
     (Inr (Some ''1.2.3.6''),
      [FloatingIps, Print (PrintAttaching (Some ''1.2.3.6'')),
       AddFloatingIp \<lparr>inst_id = ''i-1'', public_ips = []\<rparr> (JStr ''1.2.3.6'')])"
    by (simp add: attach_public_ip_def prog_defs sample_world_def sample_fips_def)
  have kept: "attach_public_ip sample_world \<lparr>inst_id = ''i-7'', public_ips = [Some ''9.9.9.9'']\<rparr> [] =
       (Inr (Some ''9.9.9.9''), [])"
    by (simp add: attach_public_ip_def prog_defs)
  have fips: "None \<notin> public_ip ` set sample_fips"
    by (simp add: sample_fips_def)
  have scans: "\<forall>k fips. floating_ips sample_world k = Inr fips \<longrightarrow> None \<notin> public_ip ` set fips"
    using fips by (simp add: sample_world_def)
  have makes: "\<forall>k fip. create_floating_ip sample_world k = Inr fip \<longrightarrow> public_ip fip \<noteq> None"
    by (auto simp: sample_world_def)
  have "Some ''1.2.3.6'' \<noteq> (None :: string option)"
    using attach_public_ip_result [OF run] scans makes by simp
  moreover have "Some ''9.9.9.9'' = hd (public_ips \<lparr>inst_id = ''i-7'', public_ips = [Some ''9.9.9.9'']\<rparr>)"
    using attach_public_ip_result [OF kept] by simp
  ultimately show ?thesis
    using run kept fips by simp
qed

text \<open>
  C10 as stated fails: for an instance whose list of public IPs is \<^verbatim>\<open>[None]\<close> the second
  branch returns the first element, which is \<^verbatim>\<open>None\<close>, and the function returns normally.
\<close>

theorem attach_public_ip_returns_none:
  "attach_public_ip sample_world \<lparr>inst_id = ''i-9'', public_ips = [None]\<rparr> [] = (Inr None, [])"
  by (simp add: attach_public_ip_def ret_def)

section \<open>Readiness polling: properties\<close>

text \<open>What one pass through the loop body does, by the answer to its HEAD request.\<close>

lemma cycle_goes_on:
  assumes "goes_on (requests_head W (h @ [Sleep p]) url)"
  shows "cycle W url p h = (Inr False, h @ [Sleep p, Head url])"
proof (cases "requests_head W (h @ [Sleep p]) url")
  case (Inl e)
  with assms show ?thesis
    by (cases e) (simp_all add: cycle_def prog_defs)
next
  case (Inr s)
  with assms show ?thesis
    by (simp add: cycle_def prog_defs raise_for_status_def)
qed

lemma cycle_returns:
  assumes "requests_head W (h @ [Sleep p]) url = Inr s"
    and "\<not> (400 \<le> s \<and> s < 600) \<or> s = 401 \<or> s = 403"
  shows "cycle W url p h = (Inr True, h @ [Sleep p, Head url])"
  using assms by (auto simp: cycle_def prog_defs raise_for_status_def)

lemma cycle_never_http_error: "fst (cycle W url p h) \<noteq> Inl (HTTPError s)"
proof (cases "requests_head W (h @ [Sleep p]) url")
  case (Inl e)
  then show ?thesis
    by (cases e) (simp_all add: cycle_def prog_defs)
next
  case (Inr s)
  then show ?thesis
    by (simp add: cycle_def prog_defs raise_for_status_def)
qed

lemma wait_loop_goes_on:
  assumes "count < max_retries" and "goes_on (requests_head W (h @ [Sleep p]) url)"
  shows "wait_loop W url max_retries p count h =
         wait_loop W url max_retries p (count + 1) (h @ [Sleep p, Head url])"
  using assms by (subst wait_loop.simps) (simp add: cycle_goes_on)

lemma wait_loop_returns:
  assumes "count < max_retries" and "requests_head W (h @ [Sleep p]) url = Inr s"
    and "\<not> (400 \<le> s \<and> s < 600) \<or> s = 401 \<or> s = 403"
  shows "wait_loop W url max_retries p count h = (Inr (), h @ [Sleep p, Head url])"
  using assms(1) cycle_returns [OF assms(2,3)] by (subst wait_loop.simps) simp

lemma wait_loop_done:
  "\<not> count < max_retries \<Longrightarrow> wait_loop W url max_retries p count h = (Inr (), h)"
  by (subst wait_loop.simps) simp

lemma cycles_Suc: "cycles (Suc k) p url = cycles k p url @ [Sleep p, Head url]"
  by (induction k) (simp_all add: cycles_def)

lemma cycles_0: "cycles 0 p url = []"
  by (simp add: cycles_def)

lemma wait_loop_run:
  assumes "\<forall>j<k. goes_on (requests_head W (h @ cycles j p url @ [Sleep p]) url)"
    and "count + int k \<le> max_retries"
  shows "wait_loop W url max_retries p count h =
         wait_loop W url max_retries p (count + int k) (h @ cycles k p url)"
  using assms
proof (induction k)
  case 0
  then show ?case by (simp add: cycles_0)
next
  case (Suc k)
  have "wait_loop W url max_retries p count h =
        wait_loop W url max_retries p (count + int k) (h @ cycles k p url)"
    using Suc by simp
  also have "\<dots> = wait_loop W url max_retries p (count + int k + 1)
                     ((h @ cycles k p url) @ [Sleep p, Head url])"
    using Suc.prems by (intro wait_loop_goes_on) simp_all
  finally show ?case
    by (simp add: cycles_Suc add.commute add.left_commute)
qed

lemma wait_loop_never_http_error:
  "fst (wait_loop W url max_retries p count h) \<noteq> Inl (HTTPError s)"
proof (induction W url max_retries p count h rule: wait_loop.induct)
  case (1 W url max_retries p count h)
  show ?case
  proof (cases "count < max_retries")
    case False
    then show ?thesis by (simp add: wait_loop_done)
  next
    case True
    obtain r h' where c: "cycle W url p h = (r, h')"
      by (cases "cycle W url p h")
    show ?thesis
    proof (cases r)
      case (Inl e)
      with c cycle_never_http_error [of W url p h s] True show ?thesis
        by (subst wait_loop.simps) simp
    next
      case (Inr b)
      with c True "1.IH" [of "Inr b" h' b] show ?thesis
        by (subst wait_loop.simps) (cases b; simp)
    qed
  qed
qed


text \<open>
  C3. A sleep+probe cycle whose HEAD request yields a 2xx, a 401 or a 403 response ends
  \<open>wait_for_http\<close>: when the cycles before it all went on to the next attempt and it is
  within \<open>max_retries\<close>, the poller returns normally right after it, having done
  exactly these cycles. When every attempt yields a connection failure the poller does
  exactly \<open>max_retries\<close> cycles (200 of 5 seconds with the default arguments) and then
  returns normally, with no exception for its caller.
\<close>

theorem wait_for_http_cycles:
  "(k < nat max_retries \<longrightarrow>
      (\<forall>j<k. goes_on (requests_head W (h @ cycles j p url @ [Sleep p]) url)) \<longrightarrow>
      requests_head W (h @ cycles k p url @ [Sleep p]) url = Inr s \<longrightarrow>
      (200 \<le> s \<and> s < 300) \<or> s = 401 \<or> s = 403 \<longrightarrow>
      wait_for_http W url max_retries p h = (Inr (), h @ cycles (Suc k) p url))
   \<and> ((\<forall>h'. requests_head W h' url = Inl ConnectionError) \<longrightarrow>
        wait_for_http W url max_retries p h = (Inr (), h @ cycles (nat max_retries) p url)
        \<and> wait_for_http_default W url h = (Inr (), h @ cycles 200 5 url))"
proof (intro conjI impI)
  assume k: "k < nat max_retries"
    and before: "\<forall>j<k. goes_on (requests_head W (h @ cycles j p url @ [Sleep p]) url)"
    and answer: "requests_head W (h @ cycles k p url @ [Sleep p]) url = Inr s"
    and ready: "(200 \<le> s \<and> s < 300) \<or> s = 401 \<or> s = 403"
  have "wait_loop W url max_retries p 0 h =
        wait_loop W url max_retries p (0 + int k) (h @ cycles k p url)"
    using before k by (intro wait_loop_run) simp_all
  also have "\<dots> = (Inr (), (h @ cycles k p url) @ [Sleep p, Head url])"
    using k answer ready by (intro wait_loop_returns [where s = s]) auto
  finally show "wait_for_http W url max_retries p h = (Inr (), h @ cycles (Suc k) p url)"
    by (simp add: wait_for_http_def cycles_Suc)
next
  assume all: "\<forall>h'. requests_head W h' url = Inl ConnectionError"
  have run: "wait_for_http W url m q h = (Inr (), h @ cycles (nat m) q url)" for m q
  proof -
    have "wait_loop W url m q 0 h = wait_loop W url m q (0 + int (nat m)) (h @ cycles (nat m) q url)"
    proof (cases "0 \<le> m")
      case True
      then show ?thesis using all by (intro wait_loop_run) simp_all
    next
      case False
      then show ?thesis by (simp add: cycles_0)
    qed
    also have "\<dots> = (Inr (), h @ cycles (nat m) q url)"
      by (intro wait_loop_done) simp
    finally show ?thesis by (simp add: wait_for_http_def)
  qed
  show "wait_for_http W url max_retries p h = (Inr (), h @ cycles (nat max_retries) p url)"
    by (rule run)
  show "wait_for_http_default W url h = (Inr (), h @ cycles 200 5 url)"
    using run [of 200 5] by (simp add: wait_for_http_default_def)
qed

theorem wait_for_http_cycles_witness:
  "(2::nat) < nat 200
   \<and> goes_on (requests_head sample_world ([] @ cycles 0 5 ''http://1.2.3.6/'' @ [Sleep 5]) ''http://1.2.3.6/'')
   \<and> goes_on (requests_head sample_world ([] @ cycles 1 5 ''http://1.2.3.6/'' @ [Sleep 5]) ''http://1.2.3.6/'')
   \<and> requests_head sample_world ([] @ cycles 2 5 ''http://1.2.3.6/'' @ [Sleep 5]) ''http://1.2.3.6/'' = Inr 200
   \<and> wait_for_http sample_world ''http://1.2.3.6/'' 200 5 [] =
       (Inr (), [Sleep 5, Head ''http://1.2.3.6/'', Sleep 5, Head ''http://1.2.3.6/'',
                 Sleep 5, Head ''http://1.2.3.6/''])
   \<and> (\<forall>h'. requests_head (sample_world\<lparr>requests_head := (\<lambda>h url. Inl ConnectionError)\<rparr>) h'
             ''http://1.2.3.6/'' = Inl ConnectionError)
   \<and> wait_for_http (sample_world\<lparr>requests_head := (\<lambda>h url. Inl ConnectionError)\<rparr>) ''http://1.2.3.6/'' 2 5 [] =
       (Inr (), [Sleep 5, Head ''http://1.2.3.6/'', Sleep 5, Head ''http://1.2.3.6/''])
   \<and> wait_for_http_default (sample_world\<lparr>requests_head := (\<lambda>h url. Inl ConnectionError)\<rparr>) ''http://1.2.3.6/'' [] =
       (Inr (), cycles 200 5 ''http://1.2.3.6/'')"
proof -
  have c: "cycles 0 p u = []" "cycles (Suc 0) p u = [Sleep p, Head u]"
    "cycles 2 p u = [Sleep p, Head u, Sleep p, Head u]"
    "cycles 3 p u = [Sleep p, Head u, Sleep p, Head u, Sleep p, Head u]" for p u
    by (simp_all add: cycles_def numeral_2_eq_2 numeral_3_eq_3)
  have g0: "goes_on (requests_head sample_world ([] @ cycles 0 5 ''http://1.2.3.6/'' @ [Sleep 5]) ''http://1.2.3.6/'')"
    by (simp add: c sample_world_def)
  have g1: "goes_on (requests_head sample_world ([] @ cycles 1 5 ''http://1.2.3.6/'' @ [Sleep 5]) ''http://1.2.3.6/'')"
    by (simp add: c sample_world_def)
  have before: "\<forall>j<2. goes_on (requests_head sample_world ([] @ cycles j 5 ''http://1.2.3.6/'' @ [Sleep 5]) ''http://1.2.3.6/'')"
    using g0 g1 by (auto simp: less_Suc_eq numeral_2_eq_2)
  have answer: "requests_head sample_world ([] @ cycles 2 5 ''http://1.2.3.6/'' @ [Sleep 5]) ''http://1.2.3.6/'' = Inr 200"
    by (simp add: c sample_world_def)
  have down: "\<forall>h'. requests_head (sample_world\<lparr>requests_head := (\<lambda>h url. Inl ConnectionError)\<rparr>) h' ''http://1.2.3.6/'' = Inl ConnectionError"
    by simp
  have first: "wait_for_http sample_world ''http://1.2.3.6/'' 200 5 [] = (Inr (), [] @ cycles (Suc 2) 5 ''http://1.2.3.6/'')"
    using wait_for_http_cycles [of 2 200 sample_world "[]" 5 "''http://1.2.3.6/''" 200] before answer
    by simp
  have second: "wait_for_http (sample_world\<lparr>requests_head := (\<lambda>h url. Inl ConnectionError)\<rparr>) ''http://1.2.3.6/'' 2 5 [] =
       (Inr (), [] @ cycles (nat 2) 5 ''http://1.2.3.6/'')
     \<and> wait_for_http_default (sample_world\<lparr>requests_head := (\<lambda>h url. Inl ConnectionError)\<rparr>) ''http://1.2.3.6/'' [] =
       (Inr (), [] @ cycles 200 5 ''http://1.2.3.6/'')"
    using wait_for_http_cycles [of 0 2 "sample_world\<lparr>requests_head := (\<lambda>h url. Inl ConnectionError)\<rparr>" "[]" 5 "''http://1.2.3.6/''" 0] down
    by blast
  show ?thesis
    using first second g0 g1 answer by (simp add: c)
qed


text \<open>
  C2, as the code has it. An HTTP error status other than 401 and 403 does not leave the
  poller: no run of \<open>wait_for_http\<close> ends with an \<open>HTTPError\<close>; an attempt that yields
  such a status is counted and the loop goes on with the next attempt; and when every
  attempt yields such a status (or a connection failure) the poller does \<open>max_retries\<close>
  cycles and returns normally.
\<close>

theorem http_error_swallowed:
  "fst (wait_for_http W url max_retries p h) \<noteq> Inl (HTTPError s)
   \<and> (count < max_retries \<longrightarrow>
        requests_head W (h @ [Sleep p]) url = Inr s \<longrightarrow>
        400 \<le> s \<and> s < 600 \<and> s \<noteq> 401 \<and> s \<noteq> 403 \<longrightarrow>
        wait_loop W url max_retries p count h =
        wait_loop W url max_retries p (count + 1) (h @ [Sleep p, Head url]))
   \<and> ((\<forall>h'. goes_on (requests_head W h' url)) \<longrightarrow>
        wait_for_http W url max_retries p h = (Inr (), h @ cycles (nat max_retries) p url))"
proof (intro conjI impI)
  show "fst (wait_for_http W url max_retries p h) \<noteq> Inl (HTTPError s)"
    by (simp add: wait_for_http_def wait_loop_never_http_error)
next
  assume "count < max_retries" and "requests_head W (h @ [Sleep p]) url = Inr s"
    and "400 \<le> s \<and> s < 600 \<and> s \<noteq> 401 \<and> s \<noteq> 403"
  then show "wait_loop W url max_retries p count h =
        wait_loop W url max_retries p (count + 1) (h @ [Sleep p, Head url])"
    by (intro wait_loop_goes_on) simp_all
next
  assume all: "\<forall>h'. goes_on (requests_head W h' url)"
  have "wait_loop W url max_retries p 0 h =
        wait_loop W url max_retries p (0 + int (nat max_retries)) (h @ cycles (nat max_retries) p url)"
  proof (cases "0 \<le> max_retries")
    case True
    then show ?thesis using all by (intro wait_loop_run) simp_all
  next
    case False
    then show ?thesis by (simp add: cycles_0)
  qed
  also have "\<dots> = (Inr (), h @ cycles (nat max_retries) p url)"
    by (intro wait_loop_done) simp
  finally show "wait_for_http W url max_retries p h = (Inr (), h @ cycles (nat max_retries) p url)"
    by (simp add: wait_for_http_def)
qed

theorem http_error_swallowed_witness:
  "(0::int) < 3
   \<and> requests_head (sample_world\<lparr>requests_head := (\<lambda>h url. Inr 500)\<rparr>) ([] @ [Sleep 5])
         ''http://1.2.3.4/'' = Inr 500
   \<and> wait_loop (sample_world\<lparr>requests_head := (\<lambda>h url. Inr 500)\<rparr>) ''http://1.2.3.4/'' 3 5 0 [] =
       wait_loop (sample_world\<lparr>requests_head := (\<lambda>h url. Inr 500)\<rparr>) ''http://1.2.3.4/'' 3 5 1
         [Sleep 5, Head ''http://1.2.3.4/'']
   \<and> (\<forall>h'. goes_on (requests_head (sample_world\<lparr>requests_head := (\<lambda>h url. Inr 500)\<rparr>) h'
                      ''http://1.2.3.4/''))
   \<and> wait_for_http (sample_world\<lparr>requests_head := (\<lambda>h url. Inr 500)\<rparr>) ''http://1.2.3.4/'' 3 5 [] =
       (Inr (), cycles 3 5 ''http://1.2.3.4/'')"
proof -
  let ?W = "sample_world\<lparr>requests_head := (\<lambda>h url. Inr 500)\<rparr>"
  have all: "\<forall>h'. goes_on (requests_head ?W h' ''http://1.2.3.4/'')"
    by simp
  note used = http_error_swallowed [of ?W "''http://1.2.3.4/''" 3 5 "[]" 500 0]
  have step: "wait_loop ?W ''http://1.2.3.4/'' 3 5 0 [] =
              wait_loop ?W ''http://1.2.3.4/'' 3 5 (0 + 1) ([] @ [Sleep 5, Head ''http://1.2.3.4/''])"
    using used by simp
  have run: "wait_for_http ?W ''http://1.2.3.4/'' 3 5 [] = (Inr (), [] @ cycles (nat 3) 5 ''http://1.2.3.4/'')"
    using used all by blast
  show ?thesis
    using step run all by simp
qed

text \<open>
  C2 as stated fails: with a server that answers 500 to every request, three attempts
  are made and the poller returns normally; the 500 is not propagated.
\<close>

theorem http_500_does_not_propagate:
  "wait_for_http (sample_world\<lparr>requests_head := (\<lambda>h url. Inr 500)\<rparr>) ''http://1.2.3.4/'' 3 5 [] =
     (Inr (), [Sleep 5, Head ''http://1.2.3.4/'', Sleep 5, Head ''http://1.2.3.4/'',
               Sleep 5, Head ''http://1.2.3.4/''])"
  by (simp add: wait_for_http_def wait_loop.simps cycle_def prog_defs raise_for_status_def)

section \<open>Launch plan and network: properties\<close>

text \<open>
  C7. With \<^verbatim>\<open>rootStorageType\<close> absent or equal to \<^verbatim>\<open>"instance"\<close> the builder returns
  \<^verbatim>\<open>None\<close> and calls nothing. With \<^verbatim>\<open>"volume"\<close>, and a \<^verbatim>\<open>rootStorageSize\<close> that is
  absent (then 20) or an integer \<open>n\<close>, it asks the provider for a launch config, adds
  exactly one volume device to it, sourced from the image, of size \<open>n\<close> and marked as
  root, and returns that launch config (the provider's calls succeeding).
\<close>

theorem get_cb_launch_config_plan:
  "(map_of cfg ''rootStorageType'' = None \<or> map_of cfg ''rootStorageType'' = Some (JStr ''instance'') \<longrightarrow>
      get_cb_launch_config W img cfg h = (Inr None, h))
   \<and> (map_of cfg ''rootStorageType'' = Some (JStr ''volume'') \<longrightarrow>
        (map_of cfg ''rootStorageSize'' = None \<and> n = 20 \<or> map_of cfg ''rootStorageSize'' = Some (JInt n)) \<longrightarrow>
        create_launch_config W h = Inr lc \<longrightarrow>
        add_volume_device W (h @ [CreateLaunchConfig]) lc img n True = Inr () \<longrightarrow>
        get_cb_launch_config W img cfg h =
          (Inr (Some lc), h @ [CreateLaunchConfig, AddVolumeDevice lc img n True]))"
  by (auto simp: get_cb_launch_config_def dict_get_def prog_defs)

theorem get_cb_launch_config_plan_witness:
  "map_of [(''instanceType'', JStr ''m1.large'')] ''rootStorageType'' = None
   \<and> get_cb_launch_config sample_world (Some \<lparr>image_id = ''ami-1''\<rparr>)
        [(''instanceType'', JStr ''m1.large'')] [] = (Inr None, [])
   \<and> map_of [(''rootStorageType'', JStr ''instance'')] ''rootStorageType'' = Some (JStr ''instance'')
   \<and> get_cb_launch_config sample_world (Some \<lparr>image_id = ''ami-1''\<rparr>)
        [(''rootStorageType'', JStr ''instance'')] [] = (Inr None, [])
   \<and> map_of [(''rootStorageType'', JStr ''volume'')] ''rootStorageSize'' = None
   \<and> get_cb_launch_config sample_world (Some \<lparr>image_id = ''ami-1''\<rparr>)
        [(''rootStorageType'', JStr ''volume'')] [] =
        (Inr (Some (LaunchConfig 0)),
         [CreateLaunchConfig, AddVolumeDevice (LaunchConfig 0) (Some \<lparr>image_id = ''ami-1''\<rparr>) 20 True])
   \<and> map_of [(''rootStorageType'', JStr ''volume''), (''rootStorageSize'', JInt 50)] ''rootStorageSize''
        = Some (JInt 50)
   \<and> get_cb_launch_config sample_world (Some \<lparr>image_id = ''ami-1''\<rparr>)
        [(''rootStorageType'', JStr ''volume''), (''rootStorageSize'', JInt 50)] [] =
        (Inr (Some (LaunchConfig 0)),
         [CreateLaunchConfig, AddVolumeDevice (LaunchConfig 0) (Some \<lparr>image_id = ''ami-1''\<rparr>) 50 True])"
proof -
  let ?img = "Some \<lparr>image_id = ''ami-1''\<rparr>"
  have a: "get_cb_launch_config sample_world ?img [(''instanceType'', JStr ''m1.large'')] [] = (Inr None, [])"
    using get_cb_launch_config_plan [of "[(''instanceType'', JStr ''m1.large'')]" sample_world ?img "[]"]
    by simp
  have b: "get_cb_launch_config sample_world ?img [(''rootStorageType'', JStr ''instance'')] [] = (Inr None, [])"
    using get_cb_launch_config_plan [of "[(''rootStorageType'', JStr ''instance'')]" sample_world ?img "[]"]
    by simp
  have c: "get_cb_launch_config sample_world ?img [(''rootStorageType'', JStr ''volume'')] [] =
        (Inr (Some (LaunchConfig 0)), [CreateLaunchConfig, AddVolumeDevice (LaunchConfig 0) ?img 20 True])"
    using get_cb_launch_config_plan [of "[(''rootStorageType'', JStr ''volume'')]" sample_world ?img "[]" 20 "LaunchConfig 0"]
    by (simp add: sample_world_def)
  have d: "get_cb_launch_config sample_world ?img [(''rootStorageType'', JStr ''volume''), (''rootStorageSize'', JInt 50)] [] =
        (Inr (Some (LaunchConfig 0)), [CreateLaunchConfig, AddVolumeDevice (LaunchConfig 0) ?img 50 True])"
    using get_cb_launch_config_plan [of "[(''rootStorageType'', JStr ''volume''), (''rootStorageSize'', JInt 50)]" sample_world ?img "[]" 50 "LaunchConfig 0"]
    by (simp add: sample_world_def)
  show ?thesis using a b c d by simp
qed

text \<open>
  C8, as the code has it. A \<^verbatim>\<open>network\<close> value that is present and truthy is returned as
  it is, with no call to the provider. When the value is absent or falsy (\<^verbatim>\<open>None\<close>, an
  empty string, zero, ...) the provider is asked for its default network and that
  network's id is returned; should the provider answer with no network, the value read
  from the configuration (\<^verbatim>\<open>None\<close> when absent) is returned.
\<close>

theorem get_network_id_truthy:
  "(map_of cfg ''network'' = Some v \<longrightarrow> truthy v \<longrightarrow>
      get_network_id W cfg h = (Inr v, h))
   \<and> (map_of cfg ''network'' = None \<or> (\<exists>u. map_of cfg ''network'' = Some u \<and> \<not> truthy u) \<longrightarrow>
        (get_or_create_default W h = Inr (Some net) \<longrightarrow>
           get_network_id W cfg h = (Inr (JStr (network_id net)), h @ [GetOrCreateDefault]))
        \<and> (get_or_create_default W h = Inr None \<longrightarrow>
             get_network_id W cfg h =
               (Inr (dict_get cfg ''network'' JNull), h @ [GetOrCreateDefault])))"
  by (auto simp: get_network_id_def dict_get_def prog_defs Let_def)

theorem get_network_id_truthy_witness:
  "map_of [(''network'', JStr ''net-42'')] ''network'' = Some (JStr ''net-42'')
   \<and> truthy (JStr ''net-42'')
   \<and> get_network_id sample_world [(''network'', JStr ''net-42'')] [] = (Inr (JStr ''net-42''), [])
   \<and> map_of ([] :: dict) ''network'' = None
   \<and> get_or_create_default sample_world [] = Inr (Some \<lparr>network_id = ''net-0''\<rparr>)
   \<and> get_network_id sample_world [] [] = (Inr (JStr ''net-0''), [GetOrCreateDefault])
   \<and> get_or_create_default (sample_world\<lparr>get_or_create_default := (\<lambda>h. Inr None)\<rparr>) [] = Inr None
   \<and> get_network_id (sample_world\<lparr>get_or_create_default := (\<lambda>h. Inr None)\<rparr>) [] [] =
        (Inr JNull, [GetOrCreateDefault])"
proof -
  have a: "get_network_id sample_world [(''network'', JStr ''net-42'')] [] = (Inr (JStr ''net-42''), [])"
    using get_network_id_truthy [of "[(''network'', JStr ''net-42'')]" "JStr ''net-42''" sample_world "[]"]
    by simp
  have d: "get_or_create_default sample_world [] = Inr (Some \<lparr>network_id = ''net-0''\<rparr>)"
    by (simp add: sample_world_def)
  have b: "get_network_id sample_world [] [] = (Inr (JStr ''net-0''), [GetOrCreateDefault])"
    using get_network_id_truthy [of "[]" JNull sample_world "[]" "\<lparr>network_id = ''net-0''\<rparr>"] d
    by simp
  have c: "get_network_id (sample_world\<lparr>get_or_create_default := (\<lambda>h. Inr None)\<rparr>) [] [] =
        (Inr JNull, [GetOrCreateDefault])"
    using get_network_id_truthy [of "[]" JNull "sample_world\<lparr>get_or_create_default := (\<lambda>h. Inr None)\<rparr>" "[]"]
    by (simp add: dict_get_def)
  show ?thesis using a b c d by simp
qed

text \<open>
  C8 as stated fails: a configuration whose \<^verbatim>\<open>network\<close> field is present and holds the
  empty string gets the id of the provider's default network, not its own value.
\<close>

theorem empty_network_falls_back:
  "map_of [(''network'', JStr '''')] ''network'' = Some (JStr '''')
   \<and> get_network_id sample_world [(''network'', JStr '''')] [] =
       (Inr (JStr ''net-0''), [GetOrCreateDefault])"
  by (simp add: get_network_id_def prog_defs dict_get_def sample_world_def)

section \<open>Firewall settings: properties\<close>

text \<open>One rule: what the \<^verbatim>\<open>try\<close> block does, and what the loop does after it.\<close>

lemma add_one_rule_dict:
  "add_one_rule W sg (JObj d) h =
     (add_rule W h sg (rule_request sg d), h @ [AddRule sg (rule_request sg d)])"
  by (simp add: add_one_rule_def rule_request_def prog_defs)

lemma add_one_rule_not_dict:
  "\<forall>d. rule \<noteq> JObj d \<Longrightarrow> add_one_rule W sg rule h = (Inl AttributeError, h)"
  by (cases rule) (simp_all add: add_one_rule_def prog_defs)

lemma add_rules_failed:
  assumes "add_one_rule W sg rule h = (Inl e, h')"
  shows "add_rules W sg (rule # rules) h = add_rules W sg rules (h' @ [Print (PrintExn e)])"
  using assms by (simp add: prog_defs)

lemma add_rules_passed:
  assumes "add_one_rule W sg rule h = (Inr u, h')"
  shows "add_rules W sg (rule # rules) h = add_rules W sg rules h'"
  using assms by (simp add: prog_defs)

lemma add_rules_never_raises: "fst (add_rules W sg rules h) = Inr ()"
proof (induction rules arbitrary: h)
  case Nil
  show ?case by (simp add: ret_def)
next
  case (Cons rule rules)
  obtain r h' where step: "add_one_rule W sg rule h = (r, h')"
    by (cases "add_one_rule W sg rule h")
  show ?case
  proof (cases r)
    case (Inl e)
    with step Cons.IH show ?thesis by (simp only: add_rules_failed)
  next
    case (Inr u)
    with step Cons.IH show ?thesis by (simp only: add_rules_passed)
  qed
qed

lemma firewall_loop_first:
  assumes "py_iter (dict_get g ''rules'' (JList [])) = Inr rules"
    and "get_or_create_sg W cfg (py_or (dict_get g ''securityGroup'' JNull) (JStr ''CloudLaunchDefault''))
           (py_or (dict_get g ''description'' JNull) (JStr ''Created by CloudLaunch'')) h = (Inr sg, h1)"
  shows "firewall_loop W cfg (JObj g # groups) h = (Inr (Some sg), snd (add_rules W sg rules h1))"
proof -
  obtain r h2 where run: "add_rules W sg rules h1 = (r, h2)"
    by (cases "add_rules W sg rules h1")
  with add_rules_never_raises [of W sg rules h1] have "r = Inr ()" by simp
  with run assms show ?thesis
    by (simp add: and_then_def lift_def ret_def)
qed

lemma get_network_id_cong:
  "map_of cfg ''network'' = map_of cfg' ''network'' \<Longrightarrow> get_network_id W cfg = get_network_id W cfg'"
  by (simp add: get_network_id_def dict_get_def)

lemma get_or_create_sg_cong:
  "map_of cfg ''network'' = map_of cfg' ''network'' \<Longrightarrow>
   get_or_create_sg W cfg name description = get_or_create_sg W cfg' name description"
proof -
  assume "map_of cfg ''network'' = map_of cfg' ''network''"
  then have eq: "get_network_id W cfg = get_network_id W cfg'"
    by (rule get_network_id_cong)
  show ?thesis
    unfolding get_or_create_sg_def eq ..
qed

lemma firewall_loop_cong:
  "map_of cfg ''network'' = map_of cfg' ''network'' \<Longrightarrow>
   firewall_loop W cfg (grp # groups) = firewall_loop W cfg' (grp # groups')"
proof -
  assume "map_of cfg ''network'' = map_of cfg' ''network''"
  then have eq: "get_or_create_sg W cfg = get_or_create_sg W cfg'"
    by (intro ext get_or_create_sg_cong)
  show ?thesis
    unfolding firewall_loop.simps eq ..
qed

lemma apply_empty:
  assumes "map_of cfg ''firewall'' = None \<or> map_of cfg ''firewall'' = Some (JList [])"
  shows "apply_app_firewall_settings W cfg h = (Inr None, h)"
  using assms by (auto simp: apply_app_firewall_settings_def dict_get_def prog_defs)
lemma sample_get_or_create_sg:
  "get_or_create_sg sample_world cfg (JStr ''A'') (JStr ''My App SG'') [] =
     (Inr sg_a, [SecurityGroupsFind (JStr ''A'')] @
        (if truthy (dict_get cfg ''network'' JNull) then [] else [GetOrCreateDefault]) @
        [SecurityGroupsCreate (JStr ''A'') (JStr ''My App SG'')
           (if truthy (dict_get cfg ''network'' JNull) then dict_get cfg ''network'' JNull else JStr ''net-0'')])"
  by (simp add: get_or_create_sg_def get_network_id_def sg_a_def prog_defs sample_world_def)

text \<open>
  C1, as the code has it. With a firewall list of one or more groups, only the first
  group is processed: the result and the whole trace of calls are those of the
  configuration that lists this group alone, so nothing is resolved, created or added
  for a later group. When the first group is a dict whose rules can be iterated and
  its security group is resolved or created as \<open>sg\<close>, the function returns \<open>sg\<close> after
  going through this group's rules.
\<close>

theorem only_first_group_applied:
  assumes "map_of cfg ''firewall'' = Some (JList (grp # groups))"
  shows "(map_of cfg' ''firewall'' = Some (JList [grp]) \<longrightarrow>
          map_of cfg' ''network'' = map_of cfg ''network'' \<longrightarrow>
            apply_app_firewall_settings W cfg h = apply_app_firewall_settings W cfg' h)
       \<and> (grp = JObj g \<longrightarrow>
          py_iter (dict_get g ''rules'' (JList [])) = Inr rules \<longrightarrow>
          get_or_create_sg W cfg (py_or (dict_get g ''securityGroup'' JNull) (JStr ''CloudLaunchDefault''))
            (py_or (dict_get g ''description'' JNull) (JStr ''Created by CloudLaunch'')) h = (Inr sg, h1) \<longrightarrow>
            apply_app_firewall_settings W cfg h = (Inr (Some sg), snd (add_rules W sg rules h1)))"
proof (intro conjI impI)
  assume "map_of cfg' ''firewall'' = Some (JList [grp])"
    and "map_of cfg' ''network'' = map_of cfg ''network''"
  with assms show "apply_app_firewall_settings W cfg h = apply_app_firewall_settings W cfg' h"
    using firewall_loop_cong [of cfg cfg' W grp groups "[]"]
    by (simp add: apply_app_firewall_settings_def dict_get_def and_then_def lift_def)
next
  assume "grp = JObj g" and "py_iter (dict_get g ''rules'' (JList [])) = Inr rules"
    and "get_or_create_sg W cfg (py_or (dict_get g ''securityGroup'' JNull) (JStr ''CloudLaunchDefault''))
            (py_or (dict_get g ''description'' JNull) (JStr ''Created by CloudLaunch'')) h = (Inr sg, h1)"
  with assms firewall_loop_first [of g rules W cfg h sg h1 groups]
  show "apply_app_firewall_settings W cfg h = (Inr (Some sg), snd (add_rules W sg rules h1))"
    by (simp add: apply_app_firewall_settings_def dict_get_def and_then_def lift_def)
qed

theorem only_first_group_applied_witness:
  "map_of two_groups ''firewall'' = Some (JList (JObj group_a # [JObj group_b]))
   \<and> map_of [(''firewall'', JList [JObj group_a])] ''firewall'' = Some (JList [JObj group_a])
   \<and> apply_app_firewall_settings sample_world two_groups [] =
       apply_app_firewall_settings sample_world [(''firewall'', JList [JObj group_a])] []
   \<and> py_iter (dict_get group_a ''rules'' (JList [])) = Inr [JObj self_rule, JObj ssh_rule]
   \<and> apply_app_firewall_settings sample_world two_groups [] =
       (Inr (Some sg_a),
        snd (add_rules sample_world sg_a [JObj self_rule, JObj ssh_rule]
               [SecurityGroupsFind (JStr ''A''), GetOrCreateDefault,
                SecurityGroupsCreate (JStr ''A'') (JStr ''My App SG'') (JStr ''net-0'')]))"
proof -
  have fw: "map_of two_groups ''firewall'' = Some (JList (JObj group_a # [JObj group_b]))"
    by (simp add: two_groups_def)
  have rules: "py_iter (dict_get group_a ''rules'' (JList [])) = Inr [JObj self_rule, JObj ssh_rule]"
    by (simp add: group_a_def dict_get_def)
  have sg: "get_or_create_sg sample_world two_groups
              (py_or (dict_get group_a ''securityGroup'' JNull) (JStr ''CloudLaunchDefault''))
              (py_or (dict_get group_a ''description'' JNull) (JStr ''Created by CloudLaunch'')) [] =
            (Inr sg_a, [SecurityGroupsFind (JStr ''A''), GetOrCreateDefault,
                        SecurityGroupsCreate (JStr ''A'') (JStr ''My App SG'') (JStr ''net-0'')])"
    by (simp add: sample_get_or_create_sg group_a_def dict_get_def py_or_def two_groups_def)
  note used = only_first_group_applied [OF fw, of "[(''firewall'', JList [JObj group_a])]" sample_world "[]"
      group_a "[JObj self_rule, JObj ssh_rule]" sg_a
      "[SecurityGroupsFind (JStr ''A''), GetOrCreateDefault,
        SecurityGroupsCreate (JStr ''A'') (JStr ''My App SG'') (JStr ''net-0'')]"]
  have same: "apply_app_firewall_settings sample_world two_groups [] =
       apply_app_firewall_settings sample_world [(''firewall'', JList [JObj group_a])] []"
    using used by (simp add: two_groups_def)
  have first: "apply_app_firewall_settings sample_world two_groups [] =
       (Inr (Some sg_a),
        snd (add_rules sample_world sg_a [JObj self_rule, JObj ssh_rule]
               [SecurityGroupsFind (JStr ''A''), GetOrCreateDefault,
                SecurityGroupsCreate (JStr ''A'') (JStr ''My App SG'') (JStr ''net-0'')]))"
    using used rules sg by blast
  show ?thesis
    using fw rules same first by simp
qed

text \<open>
  C1 as stated fails: with two groups A and B, the trace holds the calls for A only;
  group B is never looked up or created and its rule is never added.
\<close>

theorem second_group_never_processed:
  "apply_app_firewall_settings sample_world two_groups [] =
     (Inr (Some sg_a),
      [SecurityGroupsFind (JStr ''A''), GetOrCreateDefault,
       SecurityGroupsCreate (JStr ''A'') (JStr ''My App SG'') (JStr ''net-0''),
       AddRule sg_a (SrcGroup sg_a),
       Print (PrintExn (OtherError ''InvalidRule'')),
       AddRule sg_a (IpRule (JStr ''tcp'') (JStr ''22'') (JStr ''22'') (JStr ''0.0.0.0/0''))])"
  by (simp add: apply_app_firewall_settings_def two_groups_def group_a_def group_b_def self_rule_def
      ssh_rule_def http_rule_def sg_a_def get_or_create_sg_def get_network_id_def add_one_rule_def
      dict_get_def py_or_def prog_defs sample_world_def)

subsection \<open>Runs that differ only in what the rules leave in the trace\<close>

text \<open>Going through the rules never raises and leaves exactly \<open>rule_events\<close>.\<close>

lemma add_rules_not_dict:
  assumes "\<forall>d. rule \<noteq> JObj d"
  shows "add_rules W sg (rule # rules) h =
         add_rules W sg rules (h @ [Print (PrintExn AttributeError)])"
  using assms by (intro add_rules_failed add_one_rule_not_dict)

lemma rule_events_not_dict:
  assumes "\<forall>d. rule \<noteq> JObj d"
  shows "rule_events W sg (rule # rules) h =
         rule_events W sg rules (h @ [Print (PrintExn AttributeError)])"
  using assms by (cases rule) simp_all

lemma add_rules_trace: "add_rules W sg rules h = (Inr (), rule_events W sg rules h)"
proof (induction rules arbitrary: h)
  case Nil
  show ?case by (simp add: ret_def)
next
  case (Cons rule rules)
  show ?case
  proof (cases "\<exists>d. rule = JObj d")
    case False
    then have other: "\<forall>d. rule \<noteq> JObj d" by simp
    show ?thesis
      unfolding add_rules_not_dict [OF other] rule_events_not_dict [OF other]
      by (rule Cons.IH)
  next
    case True
    then obtain d where dict: "rule = JObj d" by blast
    let ?ev = "AddRule sg (rule_request sg d)"
    have attempt: "add_one_rule W sg (JObj d) h = (add_rule W h sg (rule_request sg d), h @ [?ev])"
      by (rule add_one_rule_dict)
    show ?thesis
    proof (cases "add_rule W h sg (rule_request sg d)")
      case (Inl e)
      with attempt have "add_rules W sg (JObj d # rules) h =
                         add_rules W sg rules ((h @ [?ev]) @ [Print (PrintExn e)])"
        by (intro add_rules_failed) simp
      with Cons.IH Inl dict show ?thesis by simp
    next
      case (Inr u)
      with attempt have "add_rules W sg (JObj d # rules) h = add_rules W sg rules (h @ [?ev])"
        by (intro add_rules_passed [where u = u]) simp
      with Cons.IH Inr dict show ?thesis by simp
    qed
  qed
qed

lemma others_append [simp]: "others (h @ t) = others h @ others t"
  by (simp add: others_def)

lemma others_Nil [simp]: "others [] = []"
  by (simp add: others_def)

lemma others_Cons [simp]: "others (ev # h) = (if about_rule ev then others h else ev # others h)"
  by (simp add: others_def)

lemma others_rule_events: "others (rule_events W sg rules h) = others h"
  by (induction W sg rules h rule: rule_events.induct) (simp_all split: sum.splits)

lemma same_run_ret: "same_run (ret x) (ret x)"
  by (simp add: same_run_def ret_def)

lemma same_run_raise: "same_run (raise e) (raise e)"
  by (simp add: same_run_def raise_def)

lemma same_run_lift: "same_run (lift r) (lift r)"
  by (simp add: same_run_def lift_def)

lemma same_run_tell: "\<not> about_rule ev \<Longrightarrow> same_run (tell ev) (tell ev)"
  by (simp add: same_run_def tell_def)

lemma same_run_call:
  assumes "\<not> about_rule ev" and "\<And>h. a h = a (others h)" and "\<And>h. b h = a h"
  shows "same_run (call ev a) (call ev b)"
  unfolding same_run_def call_def
proof (intro allI impI)
  fix h h' :: "event list"
  assume "others h = others h'"
  then have "a h = b h'"
    using assms(2) [of h] assms(2) [of h'] assms(3) [of h'] by simp
  with assms(1) \<open>others h = others h'\<close>
  show "fst (a h, h @ [ev]) = fst (b h', h' @ [ev]) \<and>
        others (snd (a h, h @ [ev])) = others (snd (b h', h' @ [ev]))"
    by simp
qed

lemma same_run_and_then:
  assumes "same_run m m'" and "\<And>x. same_run (f x) (f' x)"
  shows "same_run (and_then m f) (and_then m' f')"
  unfolding same_run_def
proof (intro allI impI)
  fix h h' :: "event list"
  assume eq: "others h = others h'"
  obtain r k where mh: "m h = (r, k)" by (cases "m h")
  obtain r' k' where mh': "m' h' = (r', k')" by (cases "m' h'")
  from assms(1) eq have "fst (m h) = fst (m' h')" and "others (snd (m h)) = others (snd (m' h'))"
    unfolding same_run_def by blast+
  with mh mh' have r: "r' = r" and k: "others k = others k'"
    by simp_all
  show "fst (and_then m f h) = fst (and_then m' f' h') \<and>
        others (snd (and_then m f h)) = others (snd (and_then m' f' h'))"
  proof (cases r)
    case (Inl e)
    with mh mh' r k show ?thesis by (simp add: and_then_def)
  next
    case (Inr x)
    with mh mh' r k assms(2) [of x] show ?thesis
      by (simp add: and_then_def same_run_def)
  qed
qed

lemma same_run_add_rules: "same_run (add_rules W sg rules) (add_rules W' sg rules)"
  by (simp add: same_run_def add_rules_trace others_rule_events)

lemma same_run_if:
  "(b \<Longrightarrow> same_run m1 n1) \<Longrightarrow> (\<not> b \<Longrightarrow> same_run m2 n2) \<Longrightarrow>
   same_run (if b then m1 else m2) (if b then n1 else n2)"
  by simp

text \<open>
  Every program of the launch runs the same in a world and in the same world with other
  answers to \<open>add_rule\<close>, when the other answers do not look at the rules' events.
\<close>

lemma rule_blind_facts:
  assumes "rule_blind W"
  shows "get_cloud_provider W h c k = get_cloud_provider W (others h) c k"
    and "images_get W h i = images_get W (others h) i"
    and "key_pairs_find W h n = key_pairs_find W (others h) n"
    and "key_pairs_create W h n = key_pairs_create W (others h) n"
    and "security_groups_find W h n = security_groups_find W (others h) n"
    and "security_groups_create W h n d net = security_groups_create W (others h) n d net"
    and "get_or_create_default W h = get_or_create_default W (others h)"
    and "create_launch_config W h = create_launch_config W (others h)"
    and "add_volume_device W h lc img size' root = add_volume_device W (others h) lc img size' root"
    and "instances_create W h req = instances_create W (others h) req"
    and "wait_till_ready W h inst = wait_till_ready W (others h) inst"
    and "add_floating_ip W h inst a = add_floating_ip W (others h) inst a"
    and "refresh W h inst = refresh W (others h) inst"
    and "floating_ips W h = floating_ips W (others h)"
    and "create_floating_ip W h = create_floating_ip W (others h)"
    and "requests_head W h url = requests_head W (others h) url"
  using assms unfolding rule_blind_def by metis+

lemmas same_run_steps =
  same_run_and_then same_run_ret same_run_raise same_run_lift same_run_tell same_run_call

lemma same_run_kp:
  assumes "rule_blind W"
  shows "same_run (get_or_create_kp W n) (get_or_create_kp (W\<lparr>add_rule := f\<rparr>) n)"
  unfolding get_or_create_kp_def
  by (intro same_run_steps rule_blind_facts [OF assms])
    (auto intro!: same_run_steps rule_blind_facts [OF assms] split: list.splits)

lemma same_run_network:
  assumes "rule_blind W"
  shows "same_run (get_network_id W cfg) (get_network_id (W\<lparr>add_rule := f\<rparr>) cfg)"
  unfolding get_network_id_def Let_def
  by (auto intro!: same_run_steps rule_blind_facts [OF assms] split: option.splits)

lemma same_run_sg:
  assumes "rule_blind W"
  shows "same_run (get_or_create_sg W cfg n d) (get_or_create_sg (W\<lparr>add_rule := f\<rparr>) cfg n d)"
  unfolding get_or_create_sg_def
  by (auto intro!: same_run_steps same_run_network rule_blind_facts [OF assms] assms split: option.splits)

lemma same_run_lc:
  assumes "rule_blind W"
  shows "same_run (get_cb_launch_config W img cfg) (get_cb_launch_config (W\<lparr>add_rule := f\<rparr>) img cfg)"
proof -
  have int: "py_int (W\<lparr>add_rule := f\<rparr>) v = py_int W v" for v
    by (cases v) simp_all
  show ?thesis
    unfolding get_cb_launch_config_def Let_def int
    by (auto intro!: same_run_steps rule_blind_facts [OF assms])
qed

lemma same_run_firewall_loop:
  assumes "rule_blind W"
  shows "same_run (firewall_loop W cfg groups) (firewall_loop (W\<lparr>add_rule := f\<rparr>) cfg groups)"
proof (cases groups)
  case Nil
  then show ?thesis by (simp add: same_run_ret)
next
  case (Cons grp rest)
  show ?thesis
    unfolding Cons firewall_loop.simps
    by (intro same_run_steps same_run_sg same_run_add_rules assms)
qed

lemma same_run_apply:
  assumes "rule_blind W"
  shows "same_run (apply_app_firewall_settings W cfg)
           (apply_app_firewall_settings (W\<lparr>add_rule := f\<rparr>) cfg)"
  unfolding apply_app_firewall_settings_def
  by (intro same_run_steps same_run_firewall_loop assms)

lemma same_run_attach:
  assumes "rule_blind W"
  shows "same_run (attach_public_ip W inst) (attach_public_ip (W\<lparr>add_rule := f\<rparr>) inst)"
  unfolding attach_public_ip_def
  by (auto intro!: same_run_steps rule_blind_facts [OF assms] split: option.splits)

lemma same_run_cycle:
  assumes "rule_blind W"
  shows "same_run (cycle W url p) (cycle (W\<lparr>add_rule := f\<rparr>) url p)"
proof -
  let ?probe = "\<lambda>V. and_then (call (Head url) (\<lambda>h. requests_head V h url)) raise_for_status"
  have probe: "same_run (?probe W) (?probe (W\<lparr>add_rule := f\<rparr>))"
    unfolding raise_for_status_def
    by (auto intro!: same_run_steps rule_blind_facts [OF assms])
  have handled: "same_run
      (\<lambda>h. case ?probe W h of
         (Inr u, h') \<Rightarrow> (Inr True, h')
       | (Inl (HTTPError status_code), h') \<Rightarrow> (Inr (status_code = 401 \<or> status_code = 403), h')
       | (Inl ConnectionError, h') \<Rightarrow> (Inr False, h')
       | (Inl e, h') \<Rightarrow> (Inl e, h'))
      (\<lambda>h. case ?probe (W\<lparr>add_rule := f\<rparr>) h of
         (Inr u, h') \<Rightarrow> (Inr True, h')
       | (Inl (HTTPError status_code), h') \<Rightarrow> (Inr (status_code = 401 \<or> status_code = 403), h')
       | (Inl ConnectionError, h') \<Rightarrow> (Inr False, h')
       | (Inl e, h') \<Rightarrow> (Inl e, h'))"
    unfolding same_run_def
  proof (intro allI impI)
    fix h h' :: "event list"
    assume "others h = others h'"
    with probe have "fst (?probe W h) = fst (?probe (W\<lparr>add_rule := f\<rparr>) h')"
      and "others (snd (?probe W h)) = others (snd (?probe (W\<lparr>add_rule := f\<rparr>) h'))"
      unfolding same_run_def by blast+
    then show "fst (case ?probe W h of
         (Inr u, h') \<Rightarrow> (Inr True, h')
       | (Inl (HTTPError status_code), h') \<Rightarrow> (Inr (status_code = 401 \<or> status_code = 403), h')
       | (Inl ConnectionError, h') \<Rightarrow> (Inr False, h')
       | (Inl e, h') \<Rightarrow> (Inl e, h')) =
       fst (case ?probe (W\<lparr>add_rule := f\<rparr>) h' of
         (Inr u, h') \<Rightarrow> (Inr True, h')
       | (Inl (HTTPError status_code), h') \<Rightarrow> (Inr (status_code = 401 \<or> status_code = 403), h')
       | (Inl ConnectionError, h') \<Rightarrow> (Inr False, h')
       | (Inl e, h') \<Rightarrow> (Inl e, h')) \<and>
       others (snd (case ?probe W h of
         (Inr u, h') \<Rightarrow> (Inr True, h')
       | (Inl (HTTPError status_code), h') \<Rightarrow> (Inr (status_code = 401 \<or> status_code = 403), h')
       | (Inl ConnectionError, h') \<Rightarrow> (Inr False, h')
       | (Inl e, h') \<Rightarrow> (Inl e, h'))) =
       others (snd (case ?probe (W\<lparr>add_rule := f\<rparr>) h' of
         (Inr u, h') \<Rightarrow> (Inr True, h')
       | (Inl (HTTPError status_code), h') \<Rightarrow> (Inr (status_code = 401 \<or> status_code = 403), h')
       | (Inl ConnectionError, h') \<Rightarrow> (Inr False, h')
       | (Inl e, h') \<Rightarrow> (Inl e, h')))"
      by (cases "?probe W h"; cases "?probe (W\<lparr>add_rule := f\<rparr>) h'")
        (auto split: sum.splits exn.splits)
  qed
  show ?thesis
    unfolding cycle_def
    by (intro same_run_and_then same_run_tell handled) simp
qed

lemma wait_loop_unfold:
  "wait_loop W url max_retries p count =
     (if count < max_retries then
        and_then (cycle W url p)
          (\<lambda>returned. if returned then ret () else wait_loop W url max_retries p (count + 1))
      else ret ())"
  by (rule ext, subst wait_loop.simps)
    (auto simp: and_then_def ret_def split: prod.splits sum.splits bool.splits)

lemma same_run_wait_loop:
  assumes "rule_blind W"
  shows "same_run (wait_loop W url max_retries p count)
           (wait_loop (W\<lparr>add_rule := f\<rparr>) url max_retries p count)"
proof (induction "nat (max_retries - count)" arbitrary: count)
  case 0
  then have "\<not> count < max_retries" by simp
  then show ?case
    by (subst wait_loop_unfold, subst (2) wait_loop_unfold) (simp add: same_run_ret)
next
  case (Suc n)
  then have less: "count < max_retries" and smaller: "n = nat (max_retries - (count + 1))"
    by simp_all
  have next_run: "same_run (wait_loop W url max_retries p (count + 1))
           (wait_loop (W\<lparr>add_rule := f\<rparr>) url max_retries p (count + 1))"
    using smaller by (rule Suc.hyps(1))
  show ?case
    by (subst wait_loop_unfold, subst (2) wait_loop_unfold)
      (auto simp: less intro!: same_run_and_then same_run_cycle same_run_ret next_run assms)
qed

lemma same_run_wait_for_http_default:
  assumes "rule_blind W"
  shows "same_run (wait_for_http_default W url) (wait_for_http_default (W\<lparr>add_rule := f\<rparr>) url)"
  unfolding wait_for_http_default_def wait_for_http_def
  by (rule same_run_wait_loop [OF assms])

lemma same_run_launch_app:
  assumes "rule_blind W"
  shows "same_run (launch_app W base_app name cvc credentials app_config user_data)
           (launch_app (W\<lparr>add_rule := f\<rparr>) base_app name cvc credentials app_config user_data)"
  unfolding launch_app_def Let_def
  by (auto intro!: same_run_steps same_run_kp same_run_apply same_run_lc same_run_attach
      same_run_wait_for_http_default rule_blind_facts [OF assms] assms
      split: option.splits list.splits)

lemma filter_is_head_others: "filter is_head (others h) = filter is_head h"
proof (induction h)
  case Nil
  show ?case by simp
next
  case (Cons ev h)
  then show ?case by (cases ev) auto
qed

lemma rule_blind_sample_world: "rule_blind sample_world"
  by (simp add: rule_blind_def sample_world_def filter_is_head_others)


text \<open>
  C4. A failure while adding a rule is caught and printed, never propagated, and the loop
  goes on with the next rule: going through the rules of a group never raises and leaves
  in the trace, for each rule in order, its request and, when the provider refused it,
  the printed exception. \<open>apply_app_firewall_settings\<close> returns the security group that
  was resolved or created for the first group, whichever rules failed, with exactly this
  trace. The returned group and the launch do not depend on how the provider answers the
  rules: in a world whose other answers do not look at the rules' events, replacing the
  answers to \<open>add_rule\<close> by any others leaves the result (or exception) of
  \<open>apply_app_firewall_settings\<close> and of \<open>launch_app\<close> the same, and their traces the same
  but for the rules' events.
\<close>

theorem rule_failures_swallowed:
  "add_rules W sg rules h = (Inr (), rule_events W sg rules h)
   \<and> (add_rule W h sg (rule_request sg d) = Inl e \<longrightarrow>
        add_rules W sg (JObj d # rest) h =
        add_rules W sg rest (h @ [AddRule sg (rule_request sg d), Print (PrintExn e)]))
   \<and> (map_of cfg ''firewall'' = Some (JList (JObj g # groups)) \<longrightarrow>
        py_iter (dict_get g ''rules'' (JList [])) = Inr rules \<longrightarrow>
        get_or_create_sg W cfg (py_or (dict_get g ''securityGroup'' JNull) (JStr ''CloudLaunchDefault''))
          (py_or (dict_get g ''description'' JNull) (JStr ''Created by CloudLaunch'')) h = (Inr sg, h1) \<longrightarrow>
        apply_app_firewall_settings W cfg h = (Inr (Some sg), rule_events W sg rules h1))
   \<and> (rule_blind W \<longrightarrow>
        fst (apply_app_firewall_settings (W\<lparr>add_rule := f\<rparr>) cfg h) =
          fst (apply_app_firewall_settings W cfg h)
        \<and> others (snd (apply_app_firewall_settings (W\<lparr>add_rule := f\<rparr>) cfg h)) =
            others (snd (apply_app_firewall_settings W cfg h))
        \<and> fst (launch_app (W\<lparr>add_rule := f\<rparr>) base_app name cvc credentials app_config user_data h) =
            fst (launch_app W base_app name cvc credentials app_config user_data h)
        \<and> others (snd (launch_app (W\<lparr>add_rule := f\<rparr>) base_app name cvc credentials app_config
                          user_data h)) =
            others (snd (launch_app W base_app name cvc credentials app_config user_data h)))"
proof (intro conjI impI)
  show "add_rules W sg rules h = (Inr (), rule_events W sg rules h)"
    by (rule add_rules_trace)
next
  assume "add_rule W h sg (rule_request sg d) = Inl e"
  then have "add_one_rule W sg (JObj d) h = (Inl e, h @ [AddRule sg (rule_request sg d)])"
    by (simp add: add_one_rule_dict)
  then show "add_rules W sg (JObj d # rest) h =
        add_rules W sg rest (h @ [AddRule sg (rule_request sg d), Print (PrintExn e)])"
    by (simp only: add_rules_failed) simp
next
  assume fw: "map_of cfg ''firewall'' = Some (JList (JObj g # groups))"
    and rules: "py_iter (dict_get g ''rules'' (JList [])) = Inr rules"
    and sg: "get_or_create_sg W cfg (py_or (dict_get g ''securityGroup'' JNull) (JStr ''CloudLaunchDefault''))
          (py_or (dict_get g ''description'' JNull) (JStr ''Created by CloudLaunch'')) h = (Inr sg, h1)"
  have "apply_app_firewall_settings W cfg h = firewall_loop W cfg (JObj g # groups) h"
    using fw by (simp add: apply_app_firewall_settings_def dict_get_def and_then_def lift_def)
  also have "\<dots> = (Inr (Some sg), snd (add_rules W sg rules h1))"
    using rules sg by (rule firewall_loop_first)
  finally show "apply_app_firewall_settings W cfg h = (Inr (Some sg), rule_events W sg rules h1)"
    by (simp add: add_rules_trace)
next
  assume blind: "rule_blind W"
  from same_run_apply [OF blind, of cfg f]
  show "fst (apply_app_firewall_settings (W\<lparr>add_rule := f\<rparr>) cfg h) =
          fst (apply_app_firewall_settings W cfg h)"
    and "others (snd (apply_app_firewall_settings (W\<lparr>add_rule := f\<rparr>) cfg h)) =
            others (snd (apply_app_firewall_settings W cfg h))"
    unfolding same_run_def by simp_all
  from same_run_launch_app [OF blind, of base_app name cvc credentials app_config user_data f]
  show "fst (launch_app (W\<lparr>add_rule := f\<rparr>) base_app name cvc credentials app_config user_data h) =
            fst (launch_app W base_app name cvc credentials app_config user_data h)"
    and "others (snd (launch_app (W\<lparr>add_rule := f\<rparr>) base_app name cvc credentials app_config
                          user_data h)) =
            others (snd (launch_app W base_app name cvc credentials app_config user_data h))"
    unfolding same_run_def by simp_all
qed

theorem rule_failures_swallowed_witness:
  "rule_blind sample_world
   \<and> add_rule sample_world [] sg_a (rule_request sg_a self_rule) = Inl (OtherError ''InvalidRule'')
   \<and> add_rules sample_world sg_a [JObj self_rule, JObj ssh_rule] [] =
       (Inr (), [AddRule sg_a (SrcGroup sg_a), Print (PrintExn (OtherError ''InvalidRule'')),
                 AddRule sg_a (IpRule (JStr ''tcp'') (JStr ''22'') (JStr ''22'') (JStr ''0.0.0.0/0''))])
   \<and> map_of two_groups ''firewall'' = Some (JList (JObj group_a # [JObj group_b]))
   \<and> py_iter (dict_get group_a ''rules'' (JList [])) = Inr [JObj self_rule, JObj ssh_rule]
   \<and> apply_app_firewall_settings sample_world two_groups [] =
       (Inr (Some sg_a),
        [SecurityGroupsFind (JStr ''A''), GetOrCreateDefault,
         SecurityGroupsCreate (JStr ''A'') (JStr ''My App SG'') (JStr ''net-0''),
         AddRule sg_a (SrcGroup sg_a), Print (PrintExn (OtherError ''InvalidRule'')),
         AddRule sg_a (IpRule (JStr ''tcp'') (JStr ''22'') (JStr ''22'') (JStr ''0.0.0.0/0''))])
   \<and> fst (launch_app sample_world True (JStr ''vm'') sample_config JNull
              (JObj [(''config_cloudlaunch'', JObj two_groups)]) (JStr ''ud'') []) =
       Inr \<lparr>res_key_pair = \<lparr>key_id = ''kp-1'', key_name = ''cloudlaunch_key_pair'',
                              key_material = Some ''PEM''\<rparr>,
            res_security_group = sg_a, res_instance = ''i-1'',
            res_public_ip = Some ''1.2.3.6'',
            res_application_url = Some ''http://1.2.3.6/''\<rparr>
   \<and> fst (launch_app (sample_world\<lparr>add_rule := (\<lambda>h sg a. Inr ())\<rparr>) True (JStr ''vm'') sample_config
              JNull (JObj [(''config_cloudlaunch'', JObj two_groups)]) (JStr ''ud'') []) =
       fst (launch_app sample_world True (JStr ''vm'') sample_config JNull
              (JObj [(''config_cloudlaunch'', JObj two_groups)]) (JStr ''ud'') [])"
proof -
  let ?h1 = "[SecurityGroupsFind (JStr ''A''), GetOrCreateDefault,
              SecurityGroupsCreate (JStr ''A'') (JStr ''My App SG'') (JStr ''net-0'')]"
  let ?app = "JObj [(''config_cloudlaunch'', JObj two_groups)]"
  have blind: "rule_blind sample_world"
    by (rule rule_blind_sample_world)
  have refused: "add_rule sample_world [] sg_a (rule_request sg_a self_rule) = Inl (OtherError ''InvalidRule'')"
    by (simp add: sample_world_def rule_request_def self_rule_def dict_get_def)
  have fw: "map_of two_groups ''firewall'' = Some (JList (JObj group_a # [JObj group_b]))"
    by (simp add: two_groups_def)
  have rules: "py_iter (dict_get group_a ''rules'' (JList [])) = Inr [JObj self_rule, JObj ssh_rule]"
    by (simp add: group_a_def dict_get_def)
  have sg: "get_or_create_sg sample_world two_groups
              (py_or (dict_get group_a ''securityGroup'' JNull) (JStr ''CloudLaunchDefault''))
              (py_or (dict_get group_a ''description'' JNull) (JStr ''Created by CloudLaunch'')) [] =
            (Inr sg_a, ?h1)"
    by (simp add: sample_get_or_create_sg group_a_def dict_get_def py_or_def two_groups_def)
  have ev0: "rule_events sample_world sg_a [JObj self_rule, JObj ssh_rule] k =
        k @ [AddRule sg_a (SrcGroup sg_a), Print (PrintExn (OtherError ''InvalidRule'')),
             AddRule sg_a (IpRule (JStr ''tcp'') (JStr ''22'') (JStr ''22'') (JStr ''0.0.0.0/0''))]" for k
    by (simp add: rule_request_def self_rule_def ssh_rule_def dict_get_def sample_world_def)
  note used = rule_failures_swallowed [where W = sample_world and sg = sg_a and h = "[]"
      and rules = "[JObj self_rule, JObj ssh_rule]" and d = self_rule
      and e = "OtherError ''InvalidRule''" and rest = "[JObj ssh_rule]"
      and cfg = two_groups and g = group_a and groups = "[JObj group_b]" and ?h1.0 = ?h1
      and f = "\<lambda>h sg a. Inr ()" and base_app = True and name = "JStr ''vm''"
      and cvc = sample_config and credentials = JNull and app_config = ?app
      and user_data = "JStr ''ud''"]
  have run: "add_rules sample_world sg_a [JObj self_rule, JObj ssh_rule] [] =
       (Inr (), [AddRule sg_a (SrcGroup sg_a), Print (PrintExn (OtherError ''InvalidRule'')),
                 AddRule sg_a (IpRule (JStr ''tcp'') (JStr ''22'') (JStr ''22'') (JStr ''0.0.0.0/0''))])"
    unfolding used [THEN conjunct1] ev0 by simp
  have applied: "apply_app_firewall_settings sample_world two_groups [] =
       (Inr (Some sg_a), rule_events sample_world sg_a [JObj self_rule, JObj ssh_rule] ?h1)"
    using used fw rules sg by blast
  have same: "fst (launch_app (sample_world\<lparr>add_rule := (\<lambda>h sg a. Inr ())\<rparr>) True (JStr ''vm'') sample_config
              JNull ?app (JStr ''ud'') []) =
       fst (launch_app sample_world True (JStr ''vm'') sample_config JNull ?app (JStr ''ud'') [])"
    using used blind by blast
  have result: "fst (launch_app sample_world True (JStr ''vm'') sample_config JNull ?app (JStr ''ud'') []) =
       Inr \<lparr>res_key_pair = \<lparr>key_id = ''kp-1'', key_name = ''cloudlaunch_key_pair'',
                              key_material = Some ''PEM''\<rparr>,
            res_security_group = sg_a, res_instance = ''i-1'',
            res_public_ip = Some ''1.2.3.6'',
            res_application_url = Some ''http://1.2.3.6/''\<rparr>"
    by (simp add: launch_app_def apply_app_firewall_settings_def get_or_create_kp_def
        get_or_create_sg_def get_network_id_def get_cb_launch_config_def add_one_rule_def
        attach_public_ip_def wait_for_http_default_def wait_for_http_def wait_loop.simps
        cycle_def raise_for_status_def two_groups_def group_a_def group_b_def self_rule_def
        ssh_rule_def http_rule_def sg_a_def dict_get_def py_or_def prog_defs Let_def
        sample_world_def sample_config_def sample_fips_def)
  show ?thesis
    unfolding applied ev0 using blind refused run fw rules same result by simp
qed

section \<open>The orchestrator without firewall settings\<close>

text \<open>A program that returns normally has gone through each of its steps normally.\<close>

lemma and_then_Inr:
  assumes "and_then m f h = (Inr r, h')"
  obtains x h1 where "m h = (Inr x, h1)" and "f x h1 = (Inr r, h')"
  using assms by (auto simp: and_then_def split: prod.splits sum.splits)

text \<open>
  With a firewall list that is absent or empty, \<open>apply_app_firewall_settings\<close> returns
  \<^verbatim>\<open>None\<close> and calls nothing, and \<open>launch_app\<close> never returns a result: whatever the
  provider answers, a run that comes as far as \<^verbatim>\<open>results['securityGroup']\<close> raises there.
\<close>

lemma launch_app_without_firewall:
  assumes "py_get app_config ''config_cloudlaunch'' (JObj []) = Inr (JObj cfg)"
    and "map_of cfg ''firewall'' = None \<or> map_of cfg ''firewall'' = Some (JList [])"
  shows "apply_app_firewall_settings W cfg h = (Inr None, h)
         \<and> fst (launch_app W base_app name cvc credentials app_config user_data h) \<noteq> Inr r"
proof -
  have none: "apply_app_firewall_settings W cfg k = (Inr None, k)" for k
    using assms(2) by (rule apply_empty)
  have "False" if "launch_app W base_app name cvc credentials app_config user_data h = (Inr r, h')" for h'
    using that unfolding launch_app_def Let_def
    apply (elim and_then_Inr)
    apply (clarsimp simp: assms(1) lift_def none raise_def split: option.splits)
    done
  then have "fst (launch_app W base_app name cvc credentials app_config user_data h) \<noteq> Inr r"
    by (cases "launch_app W base_app name cvc credentials app_config user_data h") auto
  with none show ?thesis by simp
qed

text \<open>
  C9, evaluated on the sample provider for a configuration with no firewall list:
  \<open>apply_app_firewall_settings\<close> returns \<^verbatim>\<open>None\<close> without a call; \<open>launch_app\<close> hands
  \<^verbatim>\<open>[None]\<close> to the creation of the instance, waits for the instance, and then raises
  \<^verbatim>\<open>AttributeError\<close> on \<^verbatim>\<open>sg.id\<close>: no result is built, no public IP is attached and the
  application is never probed.
\<close>

theorem launch_app_no_firewall_raises:
  "apply_app_firewall_settings sample_world [] [] = (Inr None, [])
   \<and> launch_app sample_world True (JStr ''vm'') sample_config JNull
     (JObj [(''config_cloudlaunch'', JObj [])]) (JStr ''ud'') [] =
   (Inl AttributeError,
    [GetCloudProvider (JStr ''aws'') JNull, ImagesGet (JStr ''ami-1''),
     UpdateState RetrievingKeypair,
     KeyPairsFind (JStr ''cloudlaunch_key_pair''),
     KeyPairsCreate (JStr ''cloudlaunch_key_pair''),
     UpdateState ApplyingFirewall,
     Print (PrintLaunching JNull None),
     Print (PrintUserData (JStr ''ud'')),
     UpdateState (LaunchingInstance (JStr ''m1.small'') ''cloudlaunch_key_pair'' JNull),
     InstancesCreate
       \<lparr>req_name = JStr ''vm'', req_image = Some \<lparr>image_id = ''ami-1''\<rparr>,
        req_instance_type = JStr ''m1.small'', req_subnet = JNull,
        req_key_pair = \<lparr>key_id = ''kp-1'', key_name = ''cloudlaunch_key_pair'',
                         key_material = Some ''PEM''\<rparr>,
        req_security_groups = [None], req_zone = JNull,
        req_user_data = JStr ''ud'', req_launch_config = None\<rparr>,
     UpdateState (WaitingForInstance ''i-1''),
     WaitTillReady \<lparr>inst_id = ''i-1'', public_ips = []\<rparr>])"
  by (simp add: launch_app_def apply_app_firewall_settings_def get_or_create_kp_def
      get_cb_launch_config_def dict_get_def py_or_def prog_defs Let_def sample_world_def sample_config_def)

end
